theory Spec2Isabelle
  imports Complex_Main
begin

section \<open>Geodesic solvers of libproj4 (geodesic/) and of geod (src/)\<close>

text \<open>
  The C sources compute with \<^verbatim>\<open>double\<close>. The embedding reads every
  \<^verbatim>\<open>double\<close> as a \<^typ>\<open>real\<close> and every function of \<^verbatim>\<open>math.h\<close> as the
  mathematical function it approximates: rounding, infinities and NaN are outside
  the model. There is one exception: the loop of \<^verbatim>\<open>proj_in_fwd\<close> has no bound on
  its passes and is left by a test that the rounding decides, so the value it
  stores is rounded by a function that the model takes as an argument.
  \<^verbatim>\<open>M_PI\<close> is \<^term>\<open>pi\<close>, \<^verbatim>\<open>M_PI_2\<close> is \<^term>\<open>pi / 2\<close> and
  \<^verbatim>\<open>M_1_PI\<close> is \<^term>\<open>1 / pi\<close>. A division \<^verbatim>\<open>x / y\<close> of the source is the
  division of \<^typ>\<open>real\<close>, which agrees with the source wherever \<^verbatim>\<open>y\<close> is not zero.
\<close>

subsection \<open>Functions of math.h\<close>

text \<open>\<^verbatim>\<open>atan2(y, x)\<close>: the angle of the point \<open>(x, y)\<close>, in \<open>(-pi, pi]\<close>; 0 at the origin.\<close>

definition atan2 :: "real \<Rightarrow> real \<Rightarrow> real" where
  "atan2 y x =
     (if 0 < x then arctan (y / x)
      else if x < 0 then (if 0 \<le> y then arctan (y / x) + pi else arctan (y / x) - pi)
      else if 0 < y then pi / 2
      else if y < 0 then - (pi / 2)
      else 0)"

text \<open>\<^verbatim>\<open>hypot(x, y)\<close>.\<close>

definition hypot :: "real \<Rightarrow> real \<Rightarrow> real" where
  "hypot x y = sqrt (x * x + y * y)"

text \<open>\<^verbatim>\<open>copysign(m, s)\<close>: the magnitude of \<open>m\<close> with the sign of \<open>s\<close>.\<close>

definition copysign :: "real \<Rightarrow> real \<Rightarrow> real" where
  "copysign m s = (if s < 0 then - \<bar>m\<bar> else \<bar>m\<bar>)"

subsection \<open>proj\_adjlon.c\<close>

text \<open>\<^verbatim>\<open>#define DBL_EPSILON 1e-14\<close> (the file's own definition).\<close>

definition DBL_EPSILON :: real where
  "DBL_EPSILON = 1 / 10 ^ 14"

text \<open>
  \<^verbatim>\<open>
  double proj_adjlon(double lon) {
      double x;
      if ((fabs(x = lon * M_1_PI) - 1.) > 3.*DBL_EPSILON) {
          x = 0.5 * (x + 1.0);
          lon = ((x - floor(x)) - 0.5) * 2 * M_PI;
      }
      return (lon);
  }
  \<close>
\<close>

definition proj_adjlon :: "real \<Rightarrow> real" where
  "proj_adjlon lon =
     (let x = lon * (1 / pi) in
      if \<bar>x\<bar> - 1 > 3 * DBL_EPSILON then
        (let x' = 0.5 * (x + 1.0) in ((x' - of_int \<lfloor>x'\<rfloor>) - 0.5) * 2 * pi)
      else lon)"

subsection \<open>project.h: points, ellipsoid, geodesic line\<close>

text \<open>
  \<^verbatim>\<open>PROJ_PT_LPH\<close> (\<^verbatim>\<open>lam\<close>, \<^verbatim>\<open>phi\<close>, \<^verbatim>\<open>h\<close>), \<^verbatim>\<open>PROJ_ELLIPS\<close>
  (\<^verbatim>\<open>a\<close>, \<^verbatim>\<open>f\<close>, \<^verbatim>\<open>es\<close>, \<^verbatim>\<open>one_es\<close>) and \<^verbatim>\<open>PROJ_LINE\<close>
  (\<^verbatim>\<open>pt1\<close>, \<^verbatim>\<open>az12\<close>, \<^verbatim>\<open>pt2\<close>, \<^verbatim>\<open>az21\<close>, \<^verbatim>\<open>S\<close>, \<^verbatim>\<open>E\<close>).
  The one-letter fields carry a prefix here (\<open>ell_a\<close>, \<open>ell_f\<close>, \<open>line_S\<close>,
  \<open>line_E\<close>, \<open>hgt\<close>), so that they do not capture the variables of the theorems.
\<close>

record PROJ_PT_LPH =
  lam :: real
  phi :: real
  hgt :: real

record PROJ_ELLIPS =
  ell_a :: real
  ell_f :: real
  ell_es :: real
  ell_one_es :: real

text \<open>
  The line holds three pointers. A pointer is \<open>NULL\<close> or the address of an object;
  the objects live in a store, so that two pointers may name the same object.
\<close>

datatype ptr = NULL | Ptr nat

record PROJ_LINE =
  pt1 :: ptr
  az12 :: real
  pt2 :: ptr
  az21 :: real
  line_S :: real
  line_E :: ptr

record store =
  pts :: "nat \<Rightarrow> PROJ_PT_LPH"
  ells :: "nat \<Rightarrow> PROJ_ELLIPS"

text \<open>\<^verbatim>\<open>p->phi = v\<close> and \<^verbatim>\<open>p->lam = v\<close> for a point \<open>p\<close> of the store.\<close>

definition wr_phi :: "nat \<Rightarrow> real \<Rightarrow> store \<Rightarrow> store" where
  "wr_phi p v s = s\<lparr>pts := (pts s)(p := (pts s p)\<lparr>phi := v\<rparr>)\<rparr>"

definition wr_lam :: "nat \<Rightarrow> real \<Rightarrow> store \<Rightarrow> store" where
  "wr_lam p v s = s\<lparr>pts := (pts s)(p := (pts s p)\<lparr>lam := v\<rparr>)\<rparr>"

text \<open>
  What a call does: it returns (\<open>Ok\<close>), it dereferences a \<open>NULL\<close> pointer
  (\<open>NullDeref\<close>: undefined behaviour in C, a crash in practice), or its loop has not
  left after the number of iterations the model was given (\<open>NoFuel\<close>).
\<close>

datatype 'a outcome = Ok 'a | NullDeref | NoFuel

subsection \<open>proj\_sp\_fwd.c\<close>

text \<open>
  \<^verbatim>\<open>
  cc = cos(S = A->S / A->E->a);  sc = sin(S);
  cp = cos(A->pt1->phi);  sp = sin(A->pt1->phi);  ca = cos(A->az12);
  A->pt2->phi = asin(sp * cc + cp * sc * ca);
  A->pt2->lam = A->pt1->lam + atan2(sc * sin(A->az12), cp * cc - sp * sc * ca);
  dl = A->pt1->lam - A->pt2->lam;
  A->az21 = atan2(cp * sin(dl), cos(A->pt2->phi) * sp - sin(A->pt2->phi) * cp * cos(dl));
  if (fabs(A->pt2->lam) > M_PI)
      A->pt2->lam -= copysign(2.*M_PI, A->pt2->lam);
  \<close>
  The reads of \<^verbatim>\<open>A->pt1\<close> and \<^verbatim>\<open>A->pt2\<close> go to the store as it is at that
  statement.
\<close>

definition proj_sp_fwd :: "PROJ_LINE \<Rightarrow> store \<Rightarrow> (PROJ_LINE \<times> store) outcome" where
  "proj_sp_fwd A s =
     (case (line_E A, pt1 A, pt2 A) of
        (Ptr e, Ptr p1, Ptr p2) \<Rightarrow>
          (let S' = line_S A / ell_a (ells s e);
               cc = cos S';
               sc = sin S';
               cp = cos (phi (pts s p1));
               sp = sin (phi (pts s p1));
               ca = cos (az12 A);
               s1 = wr_phi p2 (arcsin (sp * cc + cp * sc * ca)) s;
               s2 = wr_lam p2 (lam (pts s1 p1) +
                      atan2 (sc * sin (az12 A)) (cp * cc - sp * sc * ca)) s1;
               dl = lam (pts s2 p1) - lam (pts s2 p2);
               A1 = A\<lparr>az21 := atan2 (cp * sin dl)
                      (cos (phi (pts s2 p2)) * sp - sin (phi (pts s2 p2)) * cp * cos dl)\<rparr>;
               s3 = (if \<bar>lam (pts s2 p2)\<bar> > pi
                     then wr_lam p2 (lam (pts s2 p2) - copysign (2 * pi) (lam (pts s2 p2))) s2
                     else s2)
           in Ok (A1, s3))
      | _ \<Rightarrow> NullDeref)"

subsection \<open>proj\_in\_fwd.c\<close>

text \<open>\<^verbatim>\<open>#define EPS 5e-14\<close>\<close>

definition EPS :: real where
  "EPS = 5 / 10 ^ 14"

text \<open>
  One pass of the body of the \<^verbatim>\<open>do ... while\<close>: from \<open>y\<close> to the next \<open>y\<close>.
  \<^verbatim>\<open>
  sy = sin(y);  cy = cos(y);  cz = cos(A->az21 + y);
  e = cz * cz * 2.0 - 1.0;
  c = y;
  x = e * cy;
  y = e + e - 1.0;
  y = (((sy * sy * 4.0 - 3.0) * y * cz * d / 6.0 + x) * d / 4.0 - cz) * sy * d + tu;
  \<close>
\<close>

definition in_fwd_body :: "real \<Rightarrow> real \<Rightarrow> real \<Rightarrow> real \<Rightarrow> real" where
  "in_fwd_body az d tu y =
     (let sy = sin y; cy = cos y; cz = cos (az + y);
          e = cz * cz * 2 - 1;
          x = e * cy;
          y1 = e + e - 1
      in (((sy * sy * 4 - 3) * y1 * cz * d / 6 + x) * d / 4 - cz) * sy * d + tu)"

text \<open>
  \<^verbatim>\<open>do { ... } while (fabs(y - c) > EPS);\<close> The source puts no bound on the number
  of passes: the loop is left only by its test.

  The variable \<^verbatim>\<open>y\<close> is a \<^verbatim>\<open>double\<close>. What a pass stores into it is the value
  double arithmetic gives to the right-hand side, which is the value of
  \<^term>\<open>in_fwd_body\<close> up to rounding, and the test compares two successive stored
  values with a tolerance of the size of that rounding (above 256 two neighbouring
  doubles are \<open>1 / 2 ^ 44\<close>, about \<open>5.68e-14\<close>, apart). Whether the loop is left
  therefore depends on the rounding, and the loop takes it as its first argument
  \<open>fl\<close>, applied to the value stored into \<^verbatim>\<open>y\<close>: the identity is exact
  arithmetic. The second argument counts the passes the model is allowed; the
  result holds the values the code reads after the loop: \<open>sy\<close>, \<open>cy\<close>, \<open>cz\<close>,
  \<open>e\<close> (of the last pass) and \<open>y\<close>.
\<close>

fun in_fwd_loop ::
  "(real \<Rightarrow> real) \<Rightarrow> nat \<Rightarrow> real \<Rightarrow> real \<Rightarrow> real \<Rightarrow> real \<Rightarrow>
     (real \<times> real \<times> real \<times> real \<times> real) option" where
  "in_fwd_loop fl 0 az d tu y = None"
| "in_fwd_loop fl (Suc n) az d tu y =
     (let c = y; y' = fl (in_fwd_body az d tu y) in
      if \<bar>y' - c\<bar> > EPS then in_fwd_loop fl n az d tu y'
      else Some (sin c, cos c, cos (az + c), cos (az + c) * cos (az + c) * 2 - 1, y'))"

text \<open>
  The statements before the loop, as far as the loop needs them: the value of
  \<^verbatim>\<open>A->az21\<close>, and \<open>d\<close> and \<open>tu\<close>.
\<close>

definition in_fwd_az21 :: "real \<Rightarrow> real \<Rightarrow> real \<Rightarrow> real" where
  "in_fwd_az21 r phi1 az =
     (let tu = r * sin phi1 / cos phi1; cf = cos az in
      if cf \<noteq> 0 then atan2 tu cf * 2 else 0)"

definition in_fwd_x :: "real \<Rightarrow> real \<Rightarrow> real \<Rightarrow> real" where
  "in_fwd_x r phi1 az =
     (let tu = r * sin phi1 / cos phi1;
          sf = sin az;
          cu = 1 / sqrt (tu * tu + 1);
          sa = cu * sf;
          c2a = - sa * sa + 1;
          x = sqrt ((1 / r / r - 1) * c2a + 1) + 1
      in (x - 2) / x)"

definition in_fwd_d :: "real \<Rightarrow> real" where
  "in_fwd_d x = (x * 0.375 * x - 1) * x"

definition in_fwd_tu :: "real \<Rightarrow> real \<Rightarrow> real \<Rightarrow> real \<Rightarrow> real" where
  "in_fwd_tu S a r x = (let c = 1 - x; c' = (x * x / 4 + 1) / c in S / a / r / c')"

text \<open>
  \<^verbatim>\<open>void proj_in_fwd(PROJ_LINE * A)\<close>, with the rounding \<open>fl\<close> and the number of
  passes of its loop. After the loop:
  \<^verbatim>\<open>
  A->az21 = cu * cy * cf - su * sy;
  A->pt2->phi = atan2(su * cy + cu * sy * cf, r * hypot(sa, A->az21));
  x = atan2(sy * sf, cu * cy - su * sy * cf);
  c = ((c2a * -3.0 + 4.0) * flat + 4.0) * c2a * flat / 16.0;
  d = ((e * cy * c + cz) * sy * c + y) * sa;
  A->pt2->lam = A->pt1->lam + x - (1.0 - c) * d * flat;
  A->az21 = atan2(sa, A->az21) + M_PI;
  A->az12 = proj_adjlon(A->az12);
  A->az21 = proj_adjlon(A->az21);
  \<close>
\<close>

definition proj_in_fwd ::
  "(real \<Rightarrow> real) \<Rightarrow> nat \<Rightarrow> PROJ_LINE \<Rightarrow> store \<Rightarrow> (PROJ_LINE \<times> store) outcome" where
  "proj_in_fwd fl fuel A s =
     (case (line_E A, pt1 A) of
        (Ptr e, Ptr p1) \<Rightarrow>
          (let flat = ell_f (ells s e);
               r = 1 - flat;
               tu = r * sin (phi (pts s p1)) / cos (phi (pts s p1));
               sf = sin (az12 A);
               cf = cos (az12 A);
               A1 = A\<lparr>az21 := in_fwd_az21 r (phi (pts s p1)) (az12 A)\<rparr>;
               cu = 1 / sqrt (tu * tu + 1);
               su = tu * cu;
               sa = cu * sf;
               c2a = - sa * sa + 1;
               x = in_fwd_x r (phi (pts s p1)) (az12 A);
               d = in_fwd_d x;
               tu' = in_fwd_tu (line_S A) (ell_a (ells s e)) r x
           in case in_fwd_loop fl fuel (az21 A1) d tu' tu' of
                None \<Rightarrow> NoFuel
              | Some (sy, cy, cz, e', y) \<Rightarrow>
                  (case pt2 A of
                     NULL \<Rightarrow> NullDeref
                   | Ptr p2 \<Rightarrow>
                      (let A2 = A1\<lparr>az21 := cu * cy * cf - su * sy\<rparr>;
                           s1 = wr_phi p2 (atan2 (su * cy + cu * sy * cf)
                                            (r * hypot sa (az21 A2))) s;
                           x' = atan2 (sy * sf) (cu * cy - su * sy * cf);
                           c' = ((c2a * - 3 + 4) * flat + 4) * c2a * flat / 16;
                           d' = ((e' * cy * c' + cz) * sy * c' + y) * sa;
                           s2 = wr_lam p2 (lam (pts s1 p1) + x' - (1 - c') * d' * flat) s1;
                           A3 = A2\<lparr>az21 := atan2 sa (az21 A2) + pi\<rparr>;
                           A4 = A3\<lparr>az12 := proj_adjlon (az12 A3)\<rparr>;
                           A5 = A4\<lparr>az21 := proj_adjlon (az21 A4)\<rparr>
                       in Ok (A5, s2))))
      | _ \<Rightarrow> NullDeref)"

subsection \<open>proj\_pt\_fwd.c\<close>

text \<open>\<^verbatim>\<open># define MERI_TOL 1e-9\<close>\<close>

definition MERI_TOL :: real where
  "MERI_TOL = 1 / 10 ^ 9"

text \<open>
  The locals of \<^verbatim>\<open>proj_pt_fwd\<close> up to \<^verbatim>\<open>al21 = N * cosds - sinth1 * sinds\<close>.
  \<^verbatim>\<open>
  f4 = 0.5 * (f2 = 0.5 * (f = Arc->E->f));
  onef = 1. - f;
  al12 = proj_adjlon(Arc->az12);
  signS = fabs(al12) > M_PI_2 ? 1 : 0;
  th1 = atan(onef * tan(Arc->pt1->phi));
  costh1 = cos(th1);  sinth1 = sin(th1);
  if ((merid = fabs(sina12 = sin(al12)) < MERI_TOL)) {
      sina12 = 0.;  cosa12 = fabs(al12) < M_PI_2 ? 1. : -1.;  M = 0.;
  } else {
      cosa12 = cos(al12);  M = costh1 * sina12;
  }
  N = costh1 * cosa12;
  if (merid) {
      c1 = 0.;  c2 = f4;  D = 1. - c2;  D *= D;  P = c2 / D;
  } else {
      c1 = f * M;  c2 = f4 * (1. - M * M);
      D = (1. - c2) * (1. - c2 - c1 * M);
      P = (1. + .5 * c1 * M) * c2 / D;
  }
  if (merid) s1 = M_PI_2 - th1;
  else {
      s1 = (fabs(M) >= 1.) ? 0. : acos(M);
      s1 = sinth1 / sin(s1);
      s1 = (fabs(s1) >= 1.) ? 0. : acos(s1);
  }
  d = Arc->S / (D * Arc->E->a);
  if (signS) d = -d;
  u = 2. * (s1 - d);
  V = cos(u + d);
  X = c2 * c2 * (sind = sin(d)) * cos(d) * (2. * V * V - 1.);
  ds = d + X - 2. * P * V * (1. - 2. * P * cos(u)) * sind;
  ss = s1 + s1 - ds;
  cosds = cos(ds);  sinds = sin(ds);
  if (signS) sinds = -sinds;
  al21 = N * cosds - sinth1 * sinds;
  \<close>
\<close>

record pt_fwd_locals =
  v_f :: real
  v_onef :: real
  v_al12 :: real
  v_signS :: bool
  v_sinth1 :: real
  v_costh1 :: real
  v_merid :: bool
  v_sina12 :: real
  v_cosa12 :: real
  v_M :: real
  v_N :: real
  v_c1 :: real
  v_c2 :: real
  v_s1 :: real
  v_ds :: real
  v_ss :: real
  v_cosds :: real
  v_sinds :: real
  v_al21 :: real

definition pt_fwd_pre :: "real \<Rightarrow> real \<Rightarrow> real \<Rightarrow> real \<Rightarrow> real \<Rightarrow> pt_fwd_locals" where
  "pt_fwd_pre f ea az S' phi1 =
     (let f2 = 0.5 * f; f4 = 0.5 * f2;
          onef = 1 - f;
          al12 = proj_adjlon az;
          signS = (\<bar>al12\<bar> > pi / 2);
          th1 = arctan (onef * tan phi1);
          costh1 = cos th1;
          sinth1 = sin th1;
          merid = (\<bar>sin al12\<bar> < MERI_TOL);
          sina12 = (if merid then 0 else sin al12);
          cosa12 = (if merid then (if \<bar>al12\<bar> < pi / 2 then 1 else - 1) else cos al12);
          M = (if merid then 0 else costh1 * sina12);
          N = costh1 * cosa12;
          c1 = (if merid then 0 else f * M);
          c2 = (if merid then f4 else f4 * (1 - M * M));
          D = (if merid then (1 - c2) * (1 - c2) else (1 - c2) * (1 - c2 - c1 * M));
          P = (if merid then c2 / D else (1 + 0.5 * c1 * M) * c2 / D);
          s1 = (if merid then pi / 2 - th1
                else (let s1a = (if \<bar>M\<bar> \<ge> 1 then 0 else arccos M);
                          s1b = sinth1 / sin s1a
                      in if \<bar>s1b\<bar> \<ge> 1 then 0 else arccos s1b));
          d0 = S' / (D * ea);
          d = (if signS then - d0 else d0);
          u = 2 * (s1 - d);
          V = cos (u + d);
          sind = sin d;
          X = c2 * c2 * sind * cos d * (2 * V * V - 1);
          ds = d + X - 2 * P * V * (1 - 2 * P * cos u) * sind;
          ss = s1 + s1 - ds;
          cosds = cos ds;
          sinds = (if signS then - sin ds else sin ds)
      in \<lparr>v_f = f, v_onef = onef, v_al12 = al12, v_signS = signS, v_sinth1 = sinth1,
          v_costh1 = costh1, v_merid = merid, v_sina12 = sina12, v_cosa12 = cosa12,
          v_M = M, v_N = N, v_c1 = c1, v_c2 = c2, v_s1 = s1, v_ds = ds, v_ss = ss,
          v_cosds = cosds, v_sinds = sinds, v_al21 = N * cosds - sinth1 * sinds\<rparr>)"

text \<open>
  The meridian branch assigns the locals \<^verbatim>\<open>phi2\<close>, \<^verbatim>\<open>al21\<close> and \<^verbatim>\<open>de\<close>:
  \<^verbatim>\<open>
  phi2 = atan(tan(M_PI_2 + s1 - ds) / onef);
  if (al21 > 0.) {
      al21 = M_PI;
      if (signS) de = M_PI;
      else { phi2 = -phi2;  de = 0.; }
  } else {
      al21 = 0.;
      if (signS) { phi2 = -phi2;  de = 0; }
      else de = M_PI;
  }
  \<close>
  The result is \<open>(phi2, al21, de)\<close>.
\<close>

definition pt_fwd_merid :: "pt_fwd_locals \<Rightarrow> real \<times> real \<times> real" where
  "pt_fwd_merid v =
     (let phi2 = arctan (tan (pi / 2 + v_s1 v - v_ds v) / v_onef v) in
      if v_al21 v > 0
      then (if v_signS v then (phi2, pi, pi) else (- phi2, pi, 0))
      else (if v_signS v then (- phi2, 0, 0) else (phi2, 0, pi)))"

text \<open>
  The other branch stores into the line and the point, and assigns \<^verbatim>\<open>de\<close>:
  \<^verbatim>\<open>
  al21 = atan(M / al21);
  if (al21 > 0.) al21 += M_PI;
  if (al12 < 0.) al21 -= M_PI;
  Arc->az21 = proj_adjlon(al21);
  Arc->pt2->phi = atan(-(sinth1 * cosds + N * sinds) * sin(al21) / (onef * M));
  de = atan2(sinds * sina12, (costh1 * cosds - sinth1 * sinds * cosa12));
  if (signS) de += c1 * ((1. - c2) * ds + c2 * sinds * cos(ss));
  else       de -= c1 * ((1. - c2) * ds - c2 * sinds * cos(ss));
  \<close>
  The result is \<open>(al21, phi2, de)\<close>: the local \<^verbatim>\<open>al21\<close>, the value stored into
  \<^verbatim>\<open>Arc->pt2->phi\<close>, and \<^verbatim>\<open>de\<close>.
\<close>

definition pt_fwd_general :: "pt_fwd_locals \<Rightarrow> real \<times> real \<times> real" where
  "pt_fwd_general v =
     (let al21a = arctan (v_M v / v_al21 v);
          al21b = (if al21a > 0 then al21a + pi else al21a);
          al21 = (if v_al12 v < 0 then al21b - pi else al21b);
          phi2 = arctan (- (v_sinth1 v * v_cosds v + v_N v * v_sinds v) * sin al21 /
                         (v_onef v * v_M v));
          de0 = atan2 (v_sinds v * v_sina12 v)
                  (v_costh1 v * v_cosds v - v_sinth1 v * v_sinds v * v_cosa12 v);
          de = (if v_signS v
                then de0 + v_c1 v * ((1 - v_c2 v) * v_ds v + v_c2 v * v_sinds v * cos (v_ss v))
                else de0 - v_c1 v * ((1 - v_c2 v) * v_ds v - v_c2 v * v_sinds v * cos (v_ss v)))
      in (al21, phi2, de))"

text \<open>
  \<^verbatim>\<open>void proj_pt_fwd(PROJ_LINE * Arc)\<close>; its last statement is
  \<^verbatim>\<open>Arc->pt2->lam = proj_adjlon(Arc->pt1->lam + de);\<close>
\<close>

definition proj_pt_fwd :: "PROJ_LINE \<Rightarrow> store \<Rightarrow> (PROJ_LINE \<times> store) outcome" where
  "proj_pt_fwd Arc s =
     (case (line_E Arc, pt1 Arc, pt2 Arc) of
        (Ptr e, Ptr p1, Ptr p2) \<Rightarrow>
          (let v = pt_fwd_pre (ell_f (ells s e)) (ell_a (ells s e)) (az12 Arc) (line_S Arc)
                     (phi (pts s p1))
           in if v_merid v
              then (case pt_fwd_merid v of
                      (phi2, al21, de) \<Rightarrow>
                        Ok (Arc, wr_lam p2 (proj_adjlon (lam (pts s p1) + de)) s))
              else (case pt_fwd_general v of
                      (al21, phi2, de) \<Rightarrow>
                        (let Arc1 = Arc\<lparr>az21 := proj_adjlon al21\<rparr>;
                             s1 = wr_phi p2 phi2 s
                         in Ok (Arc1, wr_lam p2 (proj_adjlon (lam (pts s1 p1) + de)) s1))))
      | _ \<Rightarrow> NullDeref)"

subsection \<open>proj\_gforward.c\<close>

text \<open>
  \<^verbatim>\<open>
  int proj_gforward(PROJ_LINE * A) {
      if (A->pt1 == NULL || A->S <= 0 || A->E == NULL)
          return 1;
      if (A->E->f)          /* ellipsoid earth */
          proj_in_fwd(A);
      else                  /* spherical earth */
          proj_sp_fwd(A);
      return 0;
  }
  \<close>
  The result is the returned \<^verbatim>\<open>int\<close> with the line and the store after the call;
  the first two arguments are those of \<^verbatim>\<open>proj_in_fwd\<close>.
\<close>

definition proj_gforward ::
  "(real \<Rightarrow> real) \<Rightarrow> nat \<Rightarrow> PROJ_LINE \<Rightarrow> store \<Rightarrow> (int \<times> PROJ_LINE \<times> store) outcome" where
  "proj_gforward fl fuel A s =
     (if pt1 A = NULL \<or> line_S A \<le> 0 \<or> line_E A = NULL then Ok (1, A, s)
      else (case line_E A of
              NULL \<Rightarrow> NullDeref
            | Ptr e \<Rightarrow>
               (if ell_f (ells s e) \<noteq> 0
                then (case proj_in_fwd fl fuel A s of
                        Ok (A', s') \<Rightarrow> Ok (0, A', s')
                      | NullDeref \<Rightarrow> NullDeref
                      | NoFuel \<Rightarrow> NoFuel)
                else (case proj_sp_fwd A s of
                        Ok (A', s') \<Rightarrow> Ok (0, A', s')
                      | NullDeref \<Rightarrow> NullDeref
                      | NoFuel \<Rightarrow> NoFuel))))"

subsection \<open>proj\_sp\_inv.c\<close>

text \<open>
  \<^verbatim>\<open>
  dlam = A->pt2->lam - A->pt1->lam;  dphi = A->pt2->phi - A->pt1->phi;
  c1 = cos(A->pt2->phi);  c0 = cos(A->pt1->phi);
  s1 = sin(A->pt2->phi);  s0 = sin(A->pt1->phi);
  shp = sin(0.5 * dphi);  shl = sin(0.5 * dlam);
  A->S = 2. * A->E->a * asin(sqrt(shp * shp + c0 * c1 * shl * shl));
  A->az12 = atan2(c1 * (shp = sin(dlam)), c0 * s1 - s0 * c1 * (shl = cos(dlam)));
  if (A->az12 < 0.) A->az12 += 2.*M_PI;
  A->az21 = -atan2(c0 * shp, c1 * s0 - s1 * c0 * shl);
  if (A->az21 < 0.) A->az21 += 2.*M_PI;
  A->az12 = proj_adjlon(A->az12);
  A->az21 = proj_adjlon(A->az21);
  \<close>
  The inverse solvers store into the line only; the store is read.
\<close>

definition proj_sp_inv :: "PROJ_LINE \<Rightarrow> store \<Rightarrow> PROJ_LINE outcome" where
  "proj_sp_inv A s =
     (case (line_E A, pt1 A, pt2 A) of
        (Ptr e, Ptr p1, Ptr p2) \<Rightarrow>
          (let dlam = lam (pts s p2) - lam (pts s p1);
               dphi = phi (pts s p2) - phi (pts s p1);
               c1 = cos (phi (pts s p2));
               c0 = cos (phi (pts s p1));
               s1 = sin (phi (pts s p2));
               s0 = sin (phi (pts s p1));
               shp = sin (0.5 * dphi);
               shl = sin (0.5 * dlam);
               S' = 2 * ell_a (ells s e) * arcsin (sqrt (shp * shp + c0 * c1 * shl * shl));
               shp' = sin dlam;
               shl' = cos dlam;
               a12 = atan2 (c1 * shp') (c0 * s1 - s0 * c1 * shl');
               a12' = (if a12 < 0 then a12 + 2 * pi else a12);
               a21 = - atan2 (c0 * shp') (c1 * s0 - s1 * c0 * shl');
               a21' = (if a21 < 0 then a21 + 2 * pi else a21)
           in Ok (A\<lparr>line_S := S', az12 := proj_adjlon a12', az21 := proj_adjlon a21'\<rparr>))
      | _ \<Rightarrow> NullDeref)"

subsection \<open>proj\_pt\_inv.c\<close>

text \<open>\<^verbatim>\<open># define DTOL 1e-12\<close>\<close>

definition DTOL :: real where
  "DTOL = 1 / 10 ^ 12"

text \<open>
  \<^verbatim>\<open>
  f4 = 0.5 * (f2 = 0.5 * (onef = Arc->E->f));
  f64 = 0.25 * f4 * f4;
  onef = 1. - onef;
  th1 = atan(onef * tan(Arc->pt1->phi));
  th2 = atan(onef * tan(Arc->pt2->phi));
  thm = .5 * (th1 + th2);
  dthm = .5 * (th2 - th1);
  dlamm = .5 * (dlam = proj_adjlon(Arc->pt2->lam - Arc->pt1->lam));
  if (fabs(dlam) < DTOL && fabs(dthm) < DTOL) {   // pt1 == pt2
      Arc->az12 = Arc->az21 = Arc->S = 0.;
      return;
  }
  sindlamm = sin(dlamm);
  costhm = cos(thm);  sinthm = sin(thm);  cosdthm = cos(dthm);  sindthm = sin(dthm);
  L = sindthm * sindthm + (cosdthm * cosdthm - sinthm * sinthm) * sindlamm * sindlamm;
  d = acos(cosd = 1 - L - L);
  E = cosd + cosd;
  sind = sin(d);
  Y = sinthm * cosdthm;  Y *= (Y + Y) / (1. - L);
  T = sindthm * costhm;  T *= (T + T) / L;
  X = Y + T;  Y -= T;
  T = d / sind;  D = 4. * T * T;  A = D * E;  B = D + D;
  Arc->S = sind * (T - f4 * (T * X - Y) +
              f64 * (X * (A + (T - .5 * (A - E)) * X) - Y * (B + E * Y) + D * X * Y));
  tandlammp = tan(.5 * (dlam - .25 * (Y + Y - E * (4. - X)) *
              (f2 * T + f64 * (32. * T - (20. * T - A) * X - (B + 4.) * Y)) * tan(dlam)));
  u = atan2(sindthm, (tandlammp * costhm));
  v = atan2(cosdthm, (tandlammp * sinthm));
  Arc->az12 = proj_adjlon((2 * M_PI) + v - u);
  Arc->az21 = proj_adjlon((2 * M_PI) - v - u);
  \<close>
\<close>

definition proj_pt_inv :: "PROJ_LINE \<Rightarrow> store \<Rightarrow> PROJ_LINE outcome" where
  "proj_pt_inv Arc s =
     (case (line_E Arc, pt1 Arc, pt2 Arc) of
        (Ptr e, Ptr p1, Ptr p2) \<Rightarrow>
          (let f2 = 0.5 * ell_f (ells s e);
               f4 = 0.5 * f2;
               f64 = 0.25 * f4 * f4;
               onef = 1 - ell_f (ells s e);
               th1 = arctan (onef * tan (phi (pts s p1)));
               th2 = arctan (onef * tan (phi (pts s p2)));
               thm = 0.5 * (th1 + th2);
               dthm = 0.5 * (th2 - th1);
               dlam = proj_adjlon (lam (pts s p2) - lam (pts s p1));
               dlamm = 0.5 * dlam
           in if \<bar>dlam\<bar> < DTOL \<and> \<bar>dthm\<bar> < DTOL
              then Ok (Arc\<lparr>line_S := 0, az21 := 0, az12 := 0\<rparr>)
              else
               (let sindlamm = sin dlamm;
                    costhm = cos thm;
                    sinthm = sin thm;
                    cosdthm = cos dthm;
                    sindthm = sin dthm;
                    L = sindthm * sindthm +
                        (cosdthm * cosdthm - sinthm * sinthm) * sindlamm * sindlamm;
                    cosd = 1 - L - L;
                    d = arccos cosd;
                    E' = cosd + cosd;
                    sind = sin d;
                    Y0 = sinthm * cosdthm;
                    Y1 = Y0 * ((Y0 + Y0) / (1 - L));
                    T0 = sindthm * costhm;
                    T1 = T0 * ((T0 + T0) / L);
                    X = Y1 + T1;
                    Y = Y1 - T1;
                    T = d / sind;
                    D = 4 * T * T;
                    A' = D * E';
                    B = D + D;
                    S' = sind * (T - f4 * (T * X - Y) +
                           f64 * (X * (A' + (T - 0.5 * (A' - E')) * X) -
                                  Y * (B + E' * Y) + D * X * Y));
                    tandlammp = tan (0.5 * (dlam - 0.25 * (Y + Y - E' * (4 - X)) *
                           (f2 * T + f64 * (32 * T - (20 * T - A') * X - (B + 4) * Y)) *
                           tan dlam));
                    u = atan2 sindthm (tandlammp * costhm);
                    v = atan2 cosdthm (tandlammp * sinthm)
                in Ok (Arc\<lparr>line_S := S',
                            az12 := proj_adjlon (2 * pi + v - u),
                            az21 := proj_adjlon (2 * pi - v - u)\<rparr>)))
      | _ \<Rightarrow> NullDeref)"

subsection \<open>proj\_in\_inv.c\<close>

text \<open>
  \<^verbatim>\<open>
  #define TOL0  5e-15
  #define TOL1  5e-14
  #define TOL2  .007
  #define TT 5e-13
  #define TTA 5e-15
  \<close>
\<close>

definition TOL0 :: real where "TOL0 = 5 / 10 ^ 15"
definition TOL1 :: real where "TOL1 = 5 / 10 ^ 14"
definition TOL2 :: real where "TOL2 = 7 / 1000"
definition TT :: real where "TT = 5 / 10 ^ 13"
definition TTA :: real where "TTA = 5 / 10 ^ 15"

text \<open>
  \<^verbatim>\<open>static double merid_arc(double esq, double phi1, double phi2)\<close>
  \<^verbatim>\<open>
  s1 = fabs(phi1);  s2 = fabs(phi2);
  flag = (s1 <= TTA) && (fabs(s2 - M_PI_2) < TTA);
  da = phi2 - phi1;
  s1 = 0.;  s2 = 0.;
  e2 = esq;  e4 = e2 * e2;  e6 = e4 * e2;  e8 = e6 * e2;  ex = e8 * e2;
  t1 = e2 * .75;  t2 = e4 * .234375;  t3 = e6 * .068359375;
  t4 = e8 * .01922607421875;  t5 = ex * .00528717041015625;
  a = t1 + 1. + t2 * 3. + t3 * 10. + t4 * 35. + t5 * 126.;
  if (!flag) {
      b = t1 + t2 * 4. + t3 * 15. + t4 * 56. + t5 * 210.;
      c = t2 + t3 * 6. + t4 * 28. + t5 * 120.;
      d = t3 + t4 * 8. + t5 * 45.;
      e = t4 + t5 * 10.;
      f = t5;
      db = sin(phi2 * 2.) - sin(phi1 * 2.);   dc = sin(phi2 * 4.) - sin(phi1 * 4.);
      dd = sin(phi2 * 6.) - sin(phi1 * 6.);   de = sin(phi2 * 8.) - sin(phi1 * 8.);
      df = sin(phi2 * 10.) - sin(phi1 * 10.);
      s2 = -db * b / 2. + dc * c / 4. - dd * d / 6. + de * e / 8. - df * f / 10.;
  }
  s1 = da * a;
  return ((1. - esq) * (s1 + s2));
  \<close>
\<close>

definition merid_arc :: "real \<Rightarrow> real \<Rightarrow> real \<Rightarrow> real" where
  "merid_arc esq phi1 phi2 =
     (let flag = (\<bar>phi1\<bar> \<le> TTA \<and> \<bar>\<bar>phi2\<bar> - pi / 2\<bar> < TTA);
          da = phi2 - phi1;
          e2 = esq; e4 = e2 * e2; e6 = e4 * e2; e8 = e6 * e2; ex = e8 * e2;
          t1 = e2 * 0.75;
          t2 = e4 * 0.234375;
          t3 = e6 * 0.068359375;
          t4 = e8 * 0.01922607421875;
          t5 = ex * 0.00528717041015625;
          a = t1 + 1 + t2 * 3 + t3 * 10 + t4 * 35 + t5 * 126;
          s2 = (if \<not> flag then
                  (let b = t1 + t2 * 4 + t3 * 15 + t4 * 56 + t5 * 210;
                       c = t2 + t3 * 6 + t4 * 28 + t5 * 120;
                       d = t3 + t4 * 8 + t5 * 45;
                       e = t4 + t5 * 10;
                       f = t5;
                       db = sin (phi2 * 2) - sin (phi1 * 2);
                       dc = sin (phi2 * 4) - sin (phi1 * 4);
                       dd = sin (phi2 * 6) - sin (phi1 * 6);
                       de = sin (phi2 * 8) - sin (phi1 * 8);
                       df = sin (phi2 * 10) - sin (phi1 * 10)
                   in - db * b / 2 + dc * c / 4 - dd * d / 6 + de * e / 8 - df * f / 10)
                else 0);
          s1 = da * a
      in (1 - esq) * (s1 + s2))"

text \<open>
  The loop of \<^verbatim>\<open>func_loa\<close>, with \<^verbatim>\<open>iter\<close> as the source counts it; the result
  is \<open>(s, ao)\<close>. One pass gives the new \<open>s\<close> and \<open>ao\<close>.
  \<^verbatim>\<open>
  iter = 0;
  do {
      s = cos(az);
      c2 = s * s;
      *ao = t1 + c2 * (t2 + c2 * (t4 + c2 * t6));
      cs = cons / *ao;
      s = asin(cs);
      if (fabs(s - az) < TT) break;
      az = s;
  } while (++iter <= 6);
  \<close>
\<close>

definition loa_pass :: "real \<Rightarrow> real \<Rightarrow> real \<Rightarrow> real \<Rightarrow> real \<Rightarrow> real \<Rightarrow> real \<times> real" where
  "loa_pass cons t1 t2 t4 t6 az =
     (let s0 = cos az;
          c2 = s0 * s0;
          ao = t1 + c2 * (t2 + c2 * (t4 + c2 * t6));
          cs = cons / ao
      in (arcsin cs, ao))"

function loa_loop ::
  "real \<Rightarrow> real \<Rightarrow> real \<Rightarrow> real \<Rightarrow> real \<Rightarrow> nat \<Rightarrow> real \<Rightarrow> real \<times> real" where
  "loa_loop cons t1 t2 t4 t6 iter az =
     (case loa_pass cons t1 t2 t4 t6 az of
        (s, ao) \<Rightarrow>
          if \<bar>s - az\<bar> < TT then (s, ao)
          else if iter + 1 \<le> 6 then loa_loop cons t1 t2 t4 t6 (iter + 1) s
          else (s, ao))"
  by pat_completeness auto
termination
  by (relation "measure (\<lambda>(cons, t1, t2, t4, t6, iter, az). 7 - iter)") auto

declare loa_loop.simps [simp del]

text \<open>
  \<^verbatim>\<open>static void func_loa(double flat, double esq, double dlam, double az12,
  double *az21, double *ao, double *bo, double *sms)\<close>; the result is
  \<open>(az21, ao, bo, sms)\<close>. The parameter \<^verbatim>\<open>az12\<close> is passed by value and overwritten
  before it is read.
  \<^verbatim>\<open>
  dlon = fabs(dlam);
  cons = (M_PI - dlon) / (M_PI * flat);
  az = asin(cons);
  t1 = 1.;
  t2 = flat * -.25 * (flat + 1. + flat * flat);
  t4 = flat * .1875 * flat * (flat * 2.25 + 1.);
  t6 = flat * -.1953125 * flat * flat;
  ... the loop ...
  az12 = s;
  if (dlam < 0.) az12 = M_PI * 2. - az12;
  *az21 = M_PI * 2. - az12;
  esqp = esq / (1. - esq);
  s = cos(az12);
  u2 = esqp * s * s;  u4 = u2 * u2;  u6 = u4 * u2;  u8 = u6 * u2;
  t1 = 1.;  t2 = u2 * .25;  t4 = u4 * -.046875;  t6 = u6 * .01953125;
  t8 = u8 * -.01068115234375;
  *bo = t1 + t2 + t4 + t6 + t8;
  s = sin(az12);
  *sms = M_PI * (1. - flat * fabs(s) * *ao - *bo * (1. - flat));
  \<close>
\<close>

definition func_loa :: "real \<Rightarrow> real \<Rightarrow> real \<Rightarrow> real \<times> real \<times> real \<times> real" where
  "func_loa flat esq dlam =
     (let dlon = \<bar>dlam\<bar>;
          cons = (pi - dlon) / (pi * flat);
          az = arcsin cons;
          t2 = flat * - 0.25 * (flat + 1 + flat * flat);
          t4 = flat * 0.1875 * flat * (flat * 2.25 + 1);
          t6 = flat * - 0.1953125 * flat * flat
      in case loa_loop cons 1 t2 t4 t6 0 az of
           (s, ao) \<Rightarrow>
             (let az12 = (if dlam < 0 then pi * 2 - s else s);
                  az21 = pi * 2 - az12;
                  esqp = esq / (1 - esq);
                  s' = cos az12;
                  u2 = esqp * s' * s'; u4 = u2 * u2; u6 = u4 * u2; u8 = u6 * u2;
                  bo = 1 + u2 * 0.25 + u4 * - 0.046875 + u6 * 0.01953125 +
                       u8 * - 0.01068115234375;
                  s'' = sin az12;
                  sms = pi * (1 - flat * \<bar>s''\<bar> * ao - bo * (1 - flat))
              in (az21, ao, bo, sms)))"

text \<open>
  The locals of \<^verbatim>\<open>proj_in_inv\<close> that the statements after its loop read.
\<close>

record in_inv_locals =
  i_clon :: real
  i_slon :: real
  i_csig :: real
  i_ssig :: real
  i_sig :: real
  i_sinalf :: real
  i_w :: real
  i_q2 :: real
  i_q4 :: real
  i_q6 :: real
  i_r2 :: real
  i_r3 :: real

text \<open>
  The loop of \<^verbatim>\<open>proj_in_inv\<close>, with \<^verbatim>\<open>kount\<close> as the source counts it.
  One pass gives the locals and the value stored into \<^verbatim>\<open>A->S\<close>.
  \<^verbatim>\<open>
  kount = 0;
  do {
      clon = cos(ab);  slon = sin(ab);
      csig = su1 * su2 + cu1 * cu2 * clon;
      ssig = hypot(slon * cu2, su2 * cu1 - su1 * cu2 * clon);
      sig = atan2(ssig, csig);
      sinalf = cu1 * cu2 * slon / ssig;
      w = 1. - sinalf * sinalf;
      t4 = w * w;  t6 = w * t4;
      ao = f - f2 * (f + 1. + f2) * w / 4. + f3 * 3. * (f * 9. / 4. + 1.) * t4 / 16.
           - f4 * 25. * t6 / 128.;
      a2 = f2 * (f + 1. + f2) * w / 4. - f3 * (f * 9. / 4. + 1.) * t4 / 4.
           + f4 * 75. * t6 / 256.;
      a4 = f3 * (f * 9. / 4. + 1.) * t4 / 32. - f4 * 15. * t6 / 256.;
      a6 = f4 * 5. * t6 / 768.;
      qo = 0.;
      if (w > TOL0) qo = su1 * -2. * su2 / w;
      q2 = csig + qo;
      q4 = q2 * 2. * q2 - 1.;
      q6 = q2 * (q2 * 4. * q2 - 3.);
      r2 = ssig * 2. * csig;
      r3 = ssig * (3. - ssig * 4. * ssig);
      A->S = sinalf * (ao * sig + a2 * ssig * q2 + a4 * r2 * q4 + a6 * r3 * q6);
      xz = dlon + A->S;
      xy = fabs(xz - ab);
      ab = dlon + A->S;
  } while (xy >= 5e-14 && ++kount <= 7);
  \<close>
\<close>

definition in_inv_pass ::
  "real \<Rightarrow> real \<Rightarrow> real \<Rightarrow> real \<Rightarrow> real \<Rightarrow> real \<Rightarrow> in_inv_locals \<times> real" where
  "in_inv_pass f su1 cu1 su2 cu2 ab =
     (let f2 = f * f; f3 = f * f2; f4 = f * f3;
          clon = cos ab;
          slon = sin ab;
          csig = su1 * su2 + cu1 * cu2 * clon;
          ssig = hypot (slon * cu2) (su2 * cu1 - su1 * cu2 * clon);
          sig = atan2 ssig csig;
          sinalf = cu1 * cu2 * slon / ssig;
          w = 1 - sinalf * sinalf;
          t4 = w * w;
          t6 = w * t4;
          ao = f - f2 * (f + 1 + f2) * w / 4 + f3 * 3 * (f * 9 / 4 + 1) * t4 / 16 -
               f4 * 25 * t6 / 128;
          a2 = f2 * (f + 1 + f2) * w / 4 - f3 * (f * 9 / 4 + 1) * t4 / 4 +
               f4 * 75 * t6 / 256;
          a4 = f3 * (f * 9 / 4 + 1) * t4 / 32 - f4 * 15 * t6 / 256;
          a6 = f4 * 5 * t6 / 768;
          qo = (if w > TOL0 then su1 * - 2 * su2 / w else 0);
          q2 = csig + qo;
          q4 = q2 * 2 * q2 - 1;
          q6 = q2 * (q2 * 4 * q2 - 3);
          r2 = ssig * 2 * csig;
          r3 = ssig * (3 - ssig * 4 * ssig);
          S' = sinalf * (ao * sig + a2 * ssig * q2 + a4 * r2 * q4 + a6 * r3 * q6)
      in (\<lparr>i_clon = clon, i_slon = slon, i_csig = csig, i_ssig = ssig, i_sig = sig,
           i_sinalf = sinalf, i_w = w, i_q2 = q2, i_q4 = q4, i_q6 = q6,
           i_r2 = r2, i_r3 = r3\<rparr>, S'))"

function in_inv_loop ::
  "real \<Rightarrow> real \<Rightarrow> real \<Rightarrow> real \<Rightarrow> real \<Rightarrow> real \<Rightarrow> nat \<Rightarrow> real \<Rightarrow> in_inv_locals" where
  "in_inv_loop f dlon su1 cu1 su2 cu2 kount ab =
     (case in_inv_pass f su1 cu1 su2 cu2 ab of
        (v, S') \<Rightarrow>
          (let xz = dlon + S';
               xy = \<bar>xz - ab\<bar>;
               ab' = dlon + S'
           in if xy \<ge> 5 / 10 ^ 14 \<and> kount + 1 \<le> 7
              then in_inv_loop f dlon su1 cu1 su2 cu2 (kount + 1) ab'
              else v))"
  by pat_completeness auto
termination
  by (relation "measure (\<lambda>(f, dlon, su1, cu1, su2, cu2, kount, ab). 8 - kount)") auto

declare in_inv_loop.simps [simp del]

text \<open>
  The test of \<^verbatim>\<open>proj_in_inv\<close> on the two latitudes when the longitude
  difference has reached \<^verbatim>\<open>alimit\<close>, with \<open>r1 = fabs(A->pt1->phi)\<close> and
  \<open>r2 = fabs(A->pt2->phi)\<close>:
  \<^verbatim>\<open>
  if (!(r1 > TOL2 && r2 > TOL2) &&
      !(r1 < TOL1 && r2 > TOL2) && !(r2 < TOL1 && r1 > TOL2)) {
  \<close>
\<close>

definition in_inv_near_equator :: "real \<Rightarrow> real \<Rightarrow> bool" where
  "in_inv_near_equator r1 r2 \<longleftrightarrow>
     \<not> (r1 > TOL2 \<and> r2 > TOL2) \<and> \<not> (r1 < TOL1 \<and> r2 > TOL2) \<and> \<not> (r2 < TOL1 \<and> r1 > TOL2)"

text \<open>
  The longitude difference as \<^verbatim>\<open>proj_in_inv\<close> reduces it, and its magnitude
  \<^verbatim>\<open>ss\<close>:
  \<^verbatim>\<open>
  dlon = A->pt2->lam - A->pt1->lam;
  if (dlon >= 0.) {
      if ((M_PI <= dlon) && (dlon < (2. * M_PI))) dlon -= (2. * M_PI);
  } else {
      ss = fabs(dlon);
      if (M_PI <= ss && ss < (2. * M_PI)) dlon += (2. * M_PI);
  }
  ss = fabs(dlon);
  if (ss > M_PI) ss = (2. * M_PI) - ss;
  \<close>
\<close>

definition in_inv_dlon :: "real \<Rightarrow> real" where
  "in_inv_dlon dlon0 =
     (if dlon0 \<ge> 0
      then (if pi \<le> dlon0 \<and> dlon0 < 2 * pi then dlon0 - 2 * pi else dlon0)
      else (if pi \<le> \<bar>dlon0\<bar> \<and> \<bar>dlon0\<bar> < 2 * pi then dlon0 + 2 * pi else dlon0))"

definition in_inv_ss :: "real \<Rightarrow> real" where
  "in_inv_ss dlon = (if \<bar>dlon\<bar> > pi then 2 * pi - \<bar>dlon\<bar> else \<bar>dlon\<bar>)"

text \<open>
  The general case of \<^verbatim>\<open>proj_in_inv\<close>: the statements from
  \<^verbatim>\<open>f0 = 1. - f;\<close> to the end.
  \<^verbatim>\<open>
  f0 = 1. - f;  b = f0;  epsq = esq / (1. - esq);
  dlon = A->pt2->lam - A->pt1->lam;  ab = dlon;
  u1 = f0 * sin(A->pt1->phi) / cos(A->pt1->phi);
  u2 = f0 * sin(A->pt2->phi) / cos(A->pt2->phi);
  u1 = atan(u1);  u2 = atan(u2);
  su1 = sin(u1);  cu1 = cos(u1);  su2 = sin(u2);  cu2 = cos(u2);
  ... the loop ...
  z = epsq * w;
  bo = z * (z * (z * (.01953125 - z * 175. / 16384.) - .046875) + .25) + 1.;
  b2 = z * (z * (z * (z * 35. / 2048. - .029296875) + .0625) - .25);
  b4 = z * z * (z * (.005859375 - z * 35. / 8192.) - .0078125);
  b6 = z * z * z * (z * 5. / 6144. - 6.5104166666666663e-4);
  A->S = A->E->a * b * (bo * sig + b2 * ssig * q2 + b4 * r2 * q4 + b6 * r3 * q6);
  if (dlon > M_PI) dlon -= M_PI * 2.;
  if (fabs(dlon) > M_PI) dlon += M_PI * 2.;
  A->az12 = M_PI / 2.;
  if (dlon < 0.) A->az12 *= 3.;
  A->az21 = A->az12 + M_PI;
  if (A->az21 > M_PI * 2.) A->az21 -= M_PI * 2.;
  if (!(fabs(su1) < TOL0 && fabs(su2) < TOL0)) {
      tana1 = slon * cu2 / (su2 * cu1 - clon * su1 * cu2);
      tana2 = slon * cu1 / (su1 * cu2 - clon * su2 * cu1);
      sina1 = sinalf / cu1;
      sina2 = -sinalf / cu2;
      A->az12 = atan2(sina1, sina1 / tana1);
      A->az21 = M_PI - atan2(sina2, sina2 / tana2);
  }
  if (A->az12 < 0.) A->az12 += (2. * M_PI);
  if (A->az21 < 0.) A->az21 += (2. * M_PI);
  \<close>
\<close>

text \<open>
  The azimuths of the general case: the statements from
  \<^verbatim>\<open>if (dlon > M_PI) dlon -= M_PI * 2.;\<close> to the end, with the values stored into
  \<^verbatim>\<open>A->az12\<close> and \<^verbatim>\<open>A->az21\<close> as the result.
\<close>

definition in_inv_azimuths ::
  "real \<Rightarrow> real \<Rightarrow> real \<Rightarrow> real \<Rightarrow> real \<Rightarrow> in_inv_locals \<Rightarrow> real \<times> real" where
  "in_inv_azimuths dlon su1 cu1 su2 cu2 v =
     (let dlon1 = (if dlon > pi then dlon - pi * 2 else dlon);
          dlon2 = (if \<bar>dlon1\<bar> > pi then dlon1 + pi * 2 else dlon1);
          a12e = (if dlon2 < 0 then pi / 2 * 3 else pi / 2);
          a21e = (if a12e + pi > pi * 2 then a12e + pi - pi * 2 else a12e + pi);
          tana1 = i_slon v * cu2 / (su2 * cu1 - i_clon v * su1 * cu2);
          tana2 = i_slon v * cu1 / (su1 * cu2 - i_clon v * su2 * cu1);
          sina1 = i_sinalf v / cu1;
          sina2 = - i_sinalf v / cu2;
          off_equator = \<not> (\<bar>su1\<bar> < TOL0 \<and> \<bar>su2\<bar> < TOL0);
          a12 = (if off_equator then atan2 sina1 (sina1 / tana1) else a12e);
          a21 = (if off_equator then pi - atan2 sina2 (sina2 / tana2) else a21e)
      in (if a12 < 0 then a12 + 2 * pi else a12, if a21 < 0 then a21 + 2 * pi else a21))"

definition in_inv_general ::
  "PROJ_LINE \<Rightarrow> real \<Rightarrow> real \<Rightarrow> real \<Rightarrow> real \<Rightarrow> real \<Rightarrow> real \<Rightarrow> real \<Rightarrow> PROJ_LINE" where
  "in_inv_general A ea f esq lam1 phi1 lam2 phi2 =
     (let f0 = 1 - f;
          b = f0;
          epsq = esq / (1 - esq);
          dlon = lam2 - lam1;
          ab = dlon;
          u1 = arctan (f0 * sin phi1 / cos phi1);
          u2 = arctan (f0 * sin phi2 / cos phi2);
          su1 = sin u1;
          cu1 = cos u1;
          su2 = sin u2;
          cu2 = cos u2;
          v = in_inv_loop f dlon su1 cu1 su2 cu2 0 ab;
          z = epsq * i_w v;
          bo = z * (z * (z * (0.01953125 - z * 175 / 16384) - 0.046875) + 0.25) + 1;
          b2 = z * (z * (z * (z * 35 / 2048 - 0.029296875) + 0.0625) - 0.25);
          b4 = z * z * (z * (0.005859375 - z * 35 / 8192) - 0.0078125);
          b6 = z * z * z * (z * 5 / 6144 - 6.5104166666666663 / 10 ^ 4);
          S' = ea * b * (bo * i_sig v + b2 * i_ssig v * i_q2 v + b4 * i_r2 v * i_q4 v +
                         b6 * i_r3 v * i_q6 v)
      in case in_inv_azimuths dlon su1 cu1 su2 cu2 v of
           (a12, a21) \<Rightarrow> A\<lparr>line_S := S', az12 := a12, az21 := a21\<rparr>)"

text \<open>
  \<^verbatim>\<open>void proj_in_inv(PROJ_LINE * A)\<close>, from its first statement to the test for
  the anti-nodal difference:
  \<^verbatim>\<open>
  f = A->E->f;  esq = A->E->es;
  ss = A->pt2->lam - A->pt1->lam;
  if (fabs(ss) < TOL1) {
      r2 = A->pt2->phi;  r1 = A->pt1->phi;
      arc = merid_arc(esq, r1, r2);
      A->S = A->E->a * fabs(arc);
      if (A->pt2->phi > A->pt1->phi) { A->az12 = 0.;  A->az21 = M_PI; }
      else { A->az12 = M_PI;  A->az21 = 0.; }
      return;
  }
  ... dlon, ss ...
  alimit = M_PI * (1. - f);
  if (ss >= alimit) {
      r1 = fabs(A->pt1->phi);  r2 = fabs(A->pt2->phi);
      if (... the test on r1 and r2 ...) {
          if (r1 > TOL1 || r2 > TOL1) {
              A->az12 = 0.;  A->az21 = 0.;  A->S = 0.;
              return;
          }
          func_loa(f, esq, dlon, A->az12, &(A->az21), &aa, &bb, &sms);
          equ = fabs(dlon);
          A->S = equ - sms;
          return;
      }
  }
  \<close>
\<close>

definition proj_in_inv :: "PROJ_LINE \<Rightarrow> store \<Rightarrow> PROJ_LINE outcome" where
  "proj_in_inv A s =
     (case (line_E A, pt1 A, pt2 A) of
        (Ptr e, Ptr p1, Ptr p2) \<Rightarrow>
          (let f = ell_f (ells s e);
               esq = ell_es (ells s e);
               lam1 = lam (pts s p1); phi1 = phi (pts s p1);
               lam2 = lam (pts s p2); phi2 = phi (pts s p2);
               ss0 = lam2 - lam1
           in if \<bar>ss0\<bar> < TOL1
              then (let arc = merid_arc esq phi1 phi2;
                        A1 = A\<lparr>line_S := ell_a (ells s e) * \<bar>arc\<bar>\<rparr>
                    in if phi2 > phi1 then Ok (A1\<lparr>az12 := 0, az21 := pi\<rparr>)
                       else Ok (A1\<lparr>az12 := pi, az21 := 0\<rparr>))
              else
               (let dlon = in_inv_dlon (lam2 - lam1);
                    ss = in_inv_ss dlon;
                    alimit = pi * (1 - f);
                    r1 = \<bar>phi1\<bar>;
                    r2 = \<bar>phi2\<bar>
                in if ss \<ge> alimit \<and> in_inv_near_equator r1 r2
                   then (if r1 > TOL1 \<or> r2 > TOL1
                         then Ok (A\<lparr>az12 := 0, az21 := 0, line_S := 0\<rparr>)
                         else (case func_loa f esq dlon of
                                 (a21, aa, bb, sms) \<Rightarrow>
                                   Ok (A\<lparr>az21 := a21, line_S := \<bar>dlon\<bar> - sms\<rparr>)))
                   else Ok (in_inv_general A (ell_a (ells s e)) f esq lam1 phi1 lam2 phi2)))
      | _ \<Rightarrow> NullDeref)"

subsection \<open>geodesic.h, geod\_for.c, geod\_inv.c\<close>

text \<open>
  Modelled from the spec: \<^verbatim>\<open>projects.h\<close> is not among the sources. It declares the
  pair \<^verbatim>\<open>projUV\<close> (\<^verbatim>\<open>u\<close>, \<^verbatim>\<open>v\<close>: here \<^verbatim>\<open>u\<close> is the latitude and
  \<^verbatim>\<open>v\<close> the longitude, as \<^verbatim>\<open>geod_pre\<close> and \<^verbatim>\<open>geod_for\<close> use them), the
  constants \<^verbatim>\<open>HALFPI\<close>, \<^verbatim>\<open>PI\<close> and \<^verbatim>\<open>TWOPI\<close>, read here as \<open>pi / 2\<close>,
  \<open>pi\<close> and \<open>2 pi\<close>, and the normalizer \<^verbatim>\<open>adjlon\<close>, which the functions below
  take as a parameter.
\<close>

record projUV =
  uv_u :: real
  uv_v :: real

text \<open>
  \<^verbatim>\<open>GEODESIC_T\<close>; every field carries the prefix \<open>g_\<close>. The \<^verbatim>\<open>int\<close> fields
  \<^verbatim>\<open>ELLIPSE\<close>, \<^verbatim>\<open>merid\<close> and \<^verbatim>\<open>signS\<close> are tested for being non-zero.
\<close>

record GEODESIC_T =
  g_A :: real
  g_p1 :: projUV
  g_p2 :: projUV
  g_ALPHA12 :: real
  g_ALPHA21 :: real
  g_DIST :: real
  g_ONEF :: real
  g_FLAT :: real
  g_FLAT2 :: real
  g_FLAT4 :: real
  g_FLAT64 :: real
  g_ELLIPSE :: int
  g_FR_METER :: real
  g_TO_METER :: real
  g_del_alpha :: real
  g_n_alpha :: int
  g_n_S :: int
  g_th1 :: real
  g_costh1 :: real
  g_sinth1 :: real
  g_sina12 :: real
  g_cosa12 :: real
  g_M :: real
  g_N :: real
  g_c1 :: real
  g_c2 :: real
  g_D :: real
  g_P :: real
  g_s1 :: real
  g_merid :: int
  g_signS :: int

text \<open>
  \<^verbatim>\<open>void geod_pre(GEODESIC_T *GEODESIC)\<close>, statement by statement; \<^verbatim>\<open>c1\<close>,
  \<^verbatim>\<open>c2\<close>, \<^verbatim>\<open>D\<close> and \<^verbatim>\<open>P\<close> are assigned only \<^verbatim>\<open>if (GEODESIC->ELLIPSE)\<close>.
\<close>

definition geod_pre :: "(real \<Rightarrow> real) \<Rightarrow> GEODESIC_T \<Rightarrow> GEODESIC_T" where
  "geod_pre adjlon G =
     (let G1 = G\<lparr>g_ALPHA12 := adjlon (g_ALPHA12 G)\<rparr>;
          G2 = G1\<lparr>g_signS := (if \<bar>g_ALPHA12 G1\<bar> > pi / 2 then 1 else 0)\<rparr>;
          G3 = G2\<lparr>g_th1 := (if g_ELLIPSE G2 \<noteq> 0
                               then arctan (g_ONEF G2 * tan (uv_u (g_p1 G2)))
                               else uv_u (g_p1 G2))\<rparr>;
          G4 = G3\<lparr>g_costh1 := cos (g_th1 G3)\<rparr>;
          G5 = G4\<lparr>g_sinth1 := sin (g_th1 G4)\<rparr>;
          G6 = G5\<lparr>g_sina12 := sin (g_ALPHA12 G5)\<rparr>;
          G7 = G6\<lparr>g_merid := (if \<bar>g_sina12 G6\<bar> < MERI_TOL then 1 else 0)\<rparr>;
          G8 = (if g_merid G7 \<noteq> 0
                then G7\<lparr>g_sina12 := 0,
                        g_cosa12 := (if \<bar>g_ALPHA12 G7\<bar> < pi / 2 then 1 else - 1),
                        g_M := 0\<rparr>
                else G7\<lparr>g_cosa12 := cos (g_ALPHA12 G7),
                        g_M := g_costh1 G7 * g_sina12 G7\<rparr>);
          G9 = G8\<lparr>g_N := g_costh1 G8 * g_cosa12 G8\<rparr>;
          G10 = (if g_ELLIPSE G9 \<noteq> 0
                 then (if g_merid G9 \<noteq> 0
                       then G9\<lparr>g_c1 := 0, g_c2 := g_FLAT4 G9,
                               g_D := (1 - g_FLAT4 G9) * (1 - g_FLAT4 G9),
                               g_P := g_FLAT4 G9 / ((1 - g_FLAT4 G9) * (1 - g_FLAT4 G9))\<rparr>
                       else (let c1 = g_FLAT G9 * g_M G9;
                                 c2 = g_FLAT4 G9 * (1 - g_M G9 * g_M G9);
                                 D = (1 - c2) * (1 - c2 - c1 * g_M G9)
                             in G9\<lparr>g_c1 := c1, g_c2 := c2, g_D := D,
                                    g_P := (1 + 0.5 * c1 * g_M G9) * c2 / D\<rparr>))
                 else G9)
      in if g_merid G10 \<noteq> 0 then G10\<lparr>g_s1 := pi / 2 - g_th1 G10\<rparr>
         else (let s1a = (if \<bar>g_M G10\<bar> \<ge> 1 then 0 else arccos (g_M G10));
                   s1b = g_sinth1 G10 / sin s1a
               in G10\<lparr>g_s1 := (if \<bar>s1b\<bar> \<ge> 1 then 0 else arccos s1b)\<rparr>))"

text \<open>
  \<^verbatim>\<open>void geod_for(GEODESIC_T *GEODESIC)\<close>. Its locals \<^verbatim>\<open>ds\<close> and \<^verbatim>\<open>ss\<close>:
  \<^verbatim>\<open>
  if (GEODESIC->ELLIPSE) {
      d = GEODESIC->DIST / (GEODESIC->D * GEODESIC->A);
      if (GEODESIC->signS) d = -d;
      u = 2. * (GEODESIC->s1 - d);
      V = cos(u + d);
      X = GEODESIC->c2 * GEODESIC->c2 * (sind = sin(d)) * cos(d) * (2. * V * V - 1.);
      ds = d + X - 2. * GEODESIC->P * V * (1. - 2. * GEODESIC->P * cos(u)) * sind;
      ss = GEODESIC->s1 + GEODESIC->s1 - ds;
  } else {
      ds = GEODESIC->DIST / GEODESIC->A;
      if (GEODESIC->signS) ds = - ds;
  }
  \<close>
  (\<^verbatim>\<open>ss\<close> is initialised to 0.)
\<close>

definition geod_for_ds :: "GEODESIC_T \<Rightarrow> real \<times> real" where
  "geod_for_ds G =
     (if g_ELLIPSE G \<noteq> 0
      then (let d0 = g_DIST G / (g_D G * g_A G);
                d = (if g_signS G \<noteq> 0 then - d0 else d0);
                u = 2 * (g_s1 G - d);
                V = cos (u + d);
                sind = sin d;
                X = g_c2 G * g_c2 G * sind * cos d * (2 * V * V - 1);
                ds = d + X - 2 * g_P G * V * (1 - 2 * g_P G * cos u) * sind
            in (ds, g_s1 G + g_s1 G - ds))
      else (let ds0 = g_DIST G / g_A G
            in (if g_signS G \<noteq> 0 then - ds0 else ds0, 0)))"

text \<open>
  The rest of \<^verbatim>\<open>geod_for\<close>:
  \<^verbatim>\<open>
  cosds = cos(ds);  sinds = sin(ds);
  if (GEODESIC->signS) sinds = - sinds;
  GEODESIC->ALPHA21 = GEODESIC->N * cosds - GEODESIC->sinth1 * sinds;
  if (GEODESIC->merid) {
      GEODESIC->p2.u = atan( tan(HALFPI + GEODESIC->s1 - ds) / GEODESIC->ONEF);
      if (GEODESIC->ALPHA21 > 0.) {
          GEODESIC->ALPHA21 = PI;
          if (GEODESIC->signS) de = PI;
          else { GEODESIC->p2.u = - GEODESIC->p2.u;  de = 0.; }
      } else {
          GEODESIC->ALPHA21 = 0.;
          if (GEODESIC->signS) { GEODESIC->p2.u = - GEODESIC->p2.u;  de = 0; }
          else de = PI;
      }
  } else {
      GEODESIC->ALPHA21 = atan(GEODESIC->M / GEODESIC->ALPHA21);
      if (GEODESIC->ALPHA21 > 0) GEODESIC->ALPHA21 += PI;
      if (GEODESIC->ALPHA12 < 0.) GEODESIC->ALPHA21 -= PI;
      GEODESIC->ALPHA21 = adjlon(GEODESIC->ALPHA21);
      GEODESIC->p2.u = atan(-(GEODESIC->sinth1 * cosds + GEODESIC->N * sinds) *
          sin(GEODESIC->ALPHA21) / (GEODESIC->ELLIPSE ? GEODESIC->ONEF * GEODESIC->M : GEODESIC->M));
      de = atan2(sinds * GEODESIC->sina12,
          (GEODESIC->costh1 * cosds - GEODESIC->sinth1 * sinds * GEODESIC->cosa12));
      if (GEODESIC->ELLIPSE) {
          if (GEODESIC->signS)
              de += GEODESIC->c1 * ((1. - GEODESIC->c2) * ds + GEODESIC->c2 * sinds * cos(ss));
          else
              de -= GEODESIC->c1 * ((1. - GEODESIC->c2) * ds - GEODESIC->c2 * sinds * cos(ss));
      }
  }
  GEODESIC->p2.v = adjlon( GEODESIC->p1.v + de );
  \<close>
\<close>

definition geod_for :: "(real \<Rightarrow> real) \<Rightarrow> GEODESIC_T \<Rightarrow> GEODESIC_T" where
  "geod_for adjlon G =
     (case geod_for_ds G of
        (ds, ss) \<Rightarrow>
          (let cosds = cos ds;
               sinds = (if g_signS G \<noteq> 0 then - sin ds else sin ds);
               G1 = G\<lparr>g_ALPHA21 := g_N G * cosds - g_sinth1 G * sinds\<rparr>
           in if g_merid G1 \<noteq> 0
              then (let p2u = arctan (tan (pi / 2 + g_s1 G1 - ds) / g_ONEF G1);
                        G2 = G1\<lparr>g_p2 := (g_p2 G1)\<lparr>uv_u := p2u\<rparr>\<rparr>;
                        flip = (\<lambda>H. H\<lparr>g_p2 := (g_p2 H)\<lparr>uv_u := - uv_u (g_p2 H)\<rparr>\<rparr>);
                        (G3, de) =
                          (if g_ALPHA21 G2 > 0
                           then (if g_signS G2 \<noteq> 0 then (G2\<lparr>g_ALPHA21 := pi\<rparr>, pi)
                                 else (flip (G2\<lparr>g_ALPHA21 := pi\<rparr>), 0))
                           else (if g_signS G2 \<noteq> 0 then (flip (G2\<lparr>g_ALPHA21 := 0\<rparr>), 0)
                                 else (G2\<lparr>g_ALPHA21 := 0\<rparr>, pi)))
                    in G3\<lparr>g_p2 := (g_p2 G3)\<lparr>uv_v := adjlon (uv_v (g_p1 G3) + de)\<rparr>\<rparr>)
              else (let a0 = arctan (g_M G1 / g_ALPHA21 G1);
                        a1 = (if a0 > 0 then a0 + pi else a0);
                        a2 = (if g_ALPHA12 G1 < 0 then a1 - pi else a1);
                        G2 = G1\<lparr>g_ALPHA21 := adjlon a2\<rparr>;
                        p2u = arctan (- (g_sinth1 G2 * cosds + g_N G2 * sinds) *
                                sin (g_ALPHA21 G2) /
                                (if g_ELLIPSE G2 \<noteq> 0 then g_ONEF G2 * g_M G2 else g_M G2));
                        G3 = G2\<lparr>g_p2 := (g_p2 G2)\<lparr>uv_u := p2u\<rparr>\<rparr>;
                        de0 = atan2 (sinds * g_sina12 G3)
                                (g_costh1 G3 * cosds - g_sinth1 G3 * sinds * g_cosa12 G3);
                        de = (if g_ELLIPSE G3 \<noteq> 0
                              then (if g_signS G3 \<noteq> 0
                                    then de0 + g_c1 G3 * ((1 - g_c2 G3) * ds +
                                           g_c2 G3 * sinds * cos ss)
                                    else de0 - g_c1 G3 * ((1 - g_c2 G3) * ds -
                                           g_c2 G3 * sinds * cos ss))
                              else de0)
                    in G3\<lparr>g_p2 := (g_p2 G3)\<lparr>uv_v := adjlon (uv_v (g_p1 G3) + de)\<rparr>\<rparr>)))"

text \<open>
  \<^verbatim>\<open>int geod_inv(GEODESIC_T *GEODESIC)\<close>: the returned \<^verbatim>\<open>int\<close> with the record
  after the call.
  \<^verbatim>\<open>
  if (GEODESIC->ELLIPSE) {
      th1 = atan(GEODESIC->ONEF * tan(GEODESIC->p1.u));
      th2 = atan(GEODESIC->ONEF * tan(GEODESIC->p2.u));
  } else { th1 = GEODESIC->p1.u;  th2 = GEODESIC->p2.u; }
  thm = .5 * (th1 + th2);
  dthm = .5 * (th2 - th1);
  dlamm = .5 * ( dlam = adjlon(GEODESIC->p2.v - GEODESIC->p1.v) );
  if (fabs(dlam) < DTOL && fabs(dthm) < DTOL) {
      GEODESIC->ALPHA12 =  GEODESIC->ALPHA21 = GEODESIC->DIST = 0.;
      return -1;
  }
  sindlamm = sin(dlamm);
  costhm = cos(thm);  sinthm = sin(thm);  cosdthm = cos(dthm);  sindthm = sin(dthm);
  L = sindthm * sindthm + (cosdthm * cosdthm - sinthm * sinthm) * sindlamm * sindlamm;
  d = acos(cosd = 1 - L - L);
  if (GEODESIC->ELLIPSE) {
      E = cosd + cosd;  sind = sin( d );
      Y = sinthm * cosdthm;  Y *= (Y + Y) / (1. - L);
      T = sindthm * costhm;  T *= (T + T) / L;
      X = Y + T;  Y -= T;
      T = d / sind;  D = 4. * T * T;  A = D * E;  B = D + D;
      GEODESIC->DIST = GEODESIC->A * sind * (T - GEODESIC->FLAT4 * (T * X - Y) +
          GEODESIC->FLAT64 * (X * (A + (T - .5 * (A - E)) * X) - Y * (B + E * Y) + D * X * Y));
      tandlammp = tan(.5 * (dlam - .25 * (Y + Y - E * (4. - X)) *
          (GEODESIC->FLAT2 * T + GEODESIC->FLAT64 * (32. * T - (20. * T - A) * X - (B + 4.) * Y))
          * tan(dlam)));
  } else {
      GEODESIC->DIST = GEODESIC->A * d;
      tandlammp = tan(dlamm);
  }
  u = atan2(sindthm , (tandlammp * costhm));
  v = atan2(cosdthm , (tandlammp * sinthm));
  GEODESIC->ALPHA12 = adjlon(TWOPI + v - u);
  GEODESIC->ALPHA21 = adjlon(TWOPI - v - u);
  return 0;
  \<close>
\<close>

definition geod_inv :: "(real \<Rightarrow> real) \<Rightarrow> GEODESIC_T \<Rightarrow> int \<times> GEODESIC_T" where
  "geod_inv adjlon G =
     (let th1 = (if g_ELLIPSE G \<noteq> 0 then arctan (g_ONEF G * tan (uv_u (g_p1 G)))
                 else uv_u (g_p1 G));
          th2 = (if g_ELLIPSE G \<noteq> 0 then arctan (g_ONEF G * tan (uv_u (g_p2 G)))
                 else uv_u (g_p2 G));
          thm = 0.5 * (th1 + th2);
          dthm = 0.5 * (th2 - th1);
          dlam = adjlon (uv_v (g_p2 G) - uv_v (g_p1 G));
          dlamm = 0.5 * dlam
      in if \<bar>dlam\<bar> < DTOL \<and> \<bar>dthm\<bar> < DTOL
         then (- 1, G\<lparr>g_DIST := 0, g_ALPHA21 := 0, g_ALPHA12 := 0\<rparr>)
         else
          (let sindlamm = sin dlamm;
               costhm = cos thm;
               sinthm = sin thm;
               cosdthm = cos dthm;
               sindthm = sin dthm;
               L = sindthm * sindthm +
                   (cosdthm * cosdthm - sinthm * sinthm) * sindlamm * sindlamm;
               cosd = 1 - L - L;
               d = arccos cosd;
               (DIST, tandlammp) =
                 (if g_ELLIPSE G \<noteq> 0
                  then (let E' = cosd + cosd;
                            sind = sin d;
                            Y0 = sinthm * cosdthm;
                            Y1 = Y0 * ((Y0 + Y0) / (1 - L));
                            T0 = sindthm * costhm;
                            T1 = T0 * ((T0 + T0) / L);
                            X = Y1 + T1;
                            Y = Y1 - T1;
                            T = d / sind;
                            D = 4 * T * T;
                            A' = D * E';
                            B = D + D
                        in (g_A G * sind * (T - g_FLAT4 G * (T * X - Y) +
                              g_FLAT64 G * (X * (A' + (T - 0.5 * (A' - E')) * X) -
                                            Y * (B + E' * Y) + D * X * Y)),
                            tan (0.5 * (dlam - 0.25 * (Y + Y - E' * (4 - X)) *
                              (g_FLAT2 G * T + g_FLAT64 G *
                                 (32 * T - (20 * T - A') * X - (B + 4) * Y)) * tan dlam))))
                  else (g_A G * d, tan dlamm));
               u = atan2 sindthm (tandlammp * costhm);
               v = atan2 cosdthm (tandlammp * sinthm)
           in (0, G\<lparr>g_DIST := DIST,
                     g_ALPHA12 := adjlon (2 * pi + v - u),
                     g_ALPHA21 := adjlon (2 * pi - v - u)\<rparr>)))"

subsection \<open>Division and tangent in the reduced latitudes\<close>

text \<open>
  The ellipsoidal solvers begin with a reduced latitude:
  \<^verbatim>\<open>tu = r * sin(A->pt1->phi) / cos(A->pt1->phi);\<close> in \<^verbatim>\<open>proj_in_fwd\<close>,
  \<^verbatim>\<open>u1 = f0 * sin(A->pt1->phi) / cos(A->pt1->phi); u1 = atan(u1);\<close> (and the same
  for \<^verbatim>\<open>u2\<close>) in \<^verbatim>\<open>proj_in_inv\<close>, and
  \<^verbatim>\<open>th1 = atan(onef * tan(Arc->pt1->phi));\<close> in \<^verbatim>\<open>proj_pt_fwd\<close>. Here the
  division is partial: it has no value when the divisor is zero, and the tangent is the
  quotient of sine and cosine.
\<close>

definition checked_div :: "real \<Rightarrow> real \<Rightarrow> real option" where
  "checked_div x y = (if y = 0 then None else Some (x / y))"

definition in_fwd_reduced :: "real \<Rightarrow> real \<Rightarrow> real option" where
  "in_fwd_reduced r phi1 = checked_div (r * sin phi1) (cos phi1)"

definition in_inv_reduced :: "real \<Rightarrow> real \<Rightarrow> real option" where
  "in_inv_reduced f0 phi' = map_option arctan (checked_div (f0 * sin phi') (cos phi'))"

definition pt_fwd_reduced :: "real \<Rightarrow> real \<Rightarrow> real option" where
  "pt_fwd_reduced onef phi1 =
     map_option (\<lambda>t. arctan (onef * t)) (checked_div (sin phi1) (cos phi1))"

subsection \<open>What a direct solver leaves as it was\<close>

text \<open>
  \<open>store_frame p2 s s'\<close>: the stores agree on the ellipsoids and on every point but
  the one at \<open>p2\<close>. \<open>direct_frame A s A' s'\<close>: the line keeps its three pointers and
  \<^verbatim>\<open>S\<close>, the ellipsoids are unchanged, and so is every point that \<^verbatim>\<open>A->pt2\<close>
  does not point to.
\<close>

definition store_frame :: "nat \<Rightarrow> store \<Rightarrow> store \<Rightarrow> bool" where
  "store_frame p2 s s' \<longleftrightarrow> ells s' = ells s \<and> (\<forall>p. p \<noteq> p2 \<longrightarrow> pts s' p = pts s p)"


subsection \<open>Lines and stores to evaluate the solvers on\<close>

text \<open>
  An ellipsoid given by \<open>a\<close> and \<open>f\<close>, with \<open>es = f (2 - f)\<close> and
  \<open>one_es = 1 - es\<close>; a store with one ellipsoid, the first point at address 1 and
  the second point at every other address; a line on them with \<^verbatim>\<open>az21 = 0\<close>.
\<close>

definition ellipsoid :: "real \<Rightarrow> real \<Rightarrow> PROJ_ELLIPS" where
  "ellipsoid a f = \<lparr>ell_a = a, ell_f = f, ell_es = f * (2 - f), ell_one_es = 1 - f * (2 - f)\<rparr>"

definition point :: "real \<Rightarrow> real \<Rightarrow> PROJ_PT_LPH" where
  "point l p = \<lparr>lam = l, phi = p, hgt = 0\<rparr>"

definition store_of :: "PROJ_PT_LPH \<Rightarrow> PROJ_PT_LPH \<Rightarrow> PROJ_ELLIPS \<Rightarrow> store" where
  "store_of P1 P2 El = \<lparr>pts = (\<lambda>p. if p = 1 then P1 else P2), ells = (\<lambda>e. El)\<rparr>"

definition line_of :: "real \<Rightarrow> real \<Rightarrow> PROJ_LINE" where
  "line_of az len =
     \<lparr>pt1 = Ptr 1, az12 = az, pt2 = Ptr 2, az21 = 0, line_S = len, line_E = Ptr 0\<rparr>"

subsection \<open>Quantities of the proofs\<close>

text \<open>
  The body of the loop of \<^verbatim>\<open>proj_in_fwd\<close> without its last summand \<open>tu\<close>,
  written as a sum of sines, and a Lipschitz constant of it.
\<close>

definition in_fwd_G :: "real \<Rightarrow> real \<Rightarrow> real \<Rightarrow> real" where
  "in_fwd_G az d y =
     - (d / 2) * (sin (2 * y + az) - sin az)
     + (d * d / 16) * (sin (4 * y + 2 * az) - sin (2 * az))
     - (d * d * d / 48) * (sin (6 * y + 3 * az) - sin (3 * az))"

definition in_fwd_K :: "real \<Rightarrow> real" where
  "in_fwd_K d = \<bar>d\<bar> + d * d / 4 + \<bar>d\<bar> * (d * d) / 8"

section \<open>The angle normalizer\<close>

lemma proj_adjlon_unchanged:
  "\<bar>lon\<bar> \<le> pi * (1 + 3 * DBL_EPSILON) \<Longrightarrow> proj_adjlon lon = lon"
proof -
  assume h: "\<bar>lon\<bar> \<le> pi * (1 + 3 * DBL_EPSILON)"
  have "\<bar>lon * (1 / pi)\<bar> = \<bar>lon\<bar> / pi" by (simp add: abs_mult)
  also have "\<dots> \<le> 1 + 3 * DBL_EPSILON"
    using h by (simp add: pos_divide_le_eq mult.commute)
  finally show ?thesis by (simp add: proj_adjlon_def Let_def)
qed

lemma proj_adjlon_reduced:
  assumes "\<bar>lon * (1 / pi)\<bar> - 1 > 3 * DBL_EPSILON"
  shows "proj_adjlon lon = lon - 2 * pi * of_int \<lfloor>(lon / pi + 1) / 2\<rfloor>"
  using assms by (simp add: proj_adjlon_def Let_def field_simps)

lemma proj_adjlon_cong: "\<exists>k::int. proj_adjlon lon = lon - 2 * pi * of_int k"
proof (cases "\<bar>lon * (1 / pi)\<bar> - 1 > 3 * DBL_EPSILON")
  case True
  then show ?thesis using proj_adjlon_reduced by blast
next
  case False
  then have "proj_adjlon lon = lon - 2 * pi * of_int 0"
    by (simp add: proj_adjlon_def Let_def)
  then show ?thesis by blast
qed

lemma proj_adjlon_reduced_range:
  assumes "\<bar>lon * (1 / pi)\<bar> - 1 > 3 * DBL_EPSILON"
  shows "- pi \<le> proj_adjlon lon \<and> proj_adjlon lon < pi"
proof -
  define x' where "x' = 0.5 * (lon * (1 / pi) + 1.0)"
  have eq: "proj_adjlon lon = ((x' - of_int \<lfloor>x'\<rfloor>) - 0.5) * 2 * pi"
    using assms by (simp add: proj_adjlon_def Let_def x'_def)
  have lo: "0 \<le> x' - of_int \<lfloor>x'\<rfloor>" and hi: "x' - of_int \<lfloor>x'\<rfloor> < 1"
    by linarith+
  have "- pi = ((0::real) - 0.5) * 2 * pi" by simp
  also have "\<dots> \<le> ((x' - of_int \<lfloor>x'\<rfloor>) - 0.5) * 2 * pi"
    using lo by (intro mult_right_mono) auto
  finally have a: "- pi \<le> proj_adjlon lon" by (simp add: eq)
  have "((x' - of_int \<lfloor>x'\<rfloor>) - 0.5) * 2 * pi < ((1::real) - 0.5) * 2 * pi"
    using hi by (intro mult_strict_right_mono) auto
  then have b: "proj_adjlon lon < pi" by (simp add: eq)
  from a b show ?thesis by blast
qed

lemma proj_adjlon_abs_le: "\<bar>proj_adjlon lon\<bar> \<le> pi * (1 + 3 * DBL_EPSILON)"
proof (cases "\<bar>lon * (1 / pi)\<bar> - 1 > 3 * DBL_EPSILON")
  case True
  have "pi * 1 \<le> pi * (1 + 3 * DBL_EPSILON)"
    by (intro mult_left_mono) (auto simp: DBL_EPSILON_def)
  then have "pi \<le> pi * (1 + 3 * DBL_EPSILON)" by (simp only: mult_1_right)
  with proj_adjlon_reduced_range [OF True] show ?thesis by linarith
next
  case False
  then have "\<bar>lon\<bar> / pi \<le> 1 + 3 * DBL_EPSILON" by (simp add: abs_mult)
  then have "\<bar>lon\<bar> \<le> pi * (1 + 3 * DBL_EPSILON)"
    by (simp add: pos_divide_le_eq mult.commute)
  moreover have "proj_adjlon lon = lon"
    using False by (simp add: proj_adjlon_def Let_def)
  ultimately show ?thesis by simp
qed

text \<open>
  C1, as the spec states it: for every angle \<open>x\<close> the normalizer returns \<open>r\<close> in
  \<open>(-pi, pi]\<close> with \<open>r\<close> congruent to \<open>x\<close> modulo \<open>2 pi\<close>. The range fails: the
  guard \<^verbatim>\<open>fabs(x) - 1. > 3.*DBL_EPSILON\<close> returns an angle just above \<open>pi\<close>
  as it came.
\<close>

theorem C1_range_counterexample:
  "\<not> (- pi < proj_adjlon (pi * (1 + 2 / 10 ^ 14)) \<and> proj_adjlon (pi * (1 + 2 / 10 ^ 14)) \<le> pi)"
proof -
  have le: "\<bar>pi * (1 + 2 / 10 ^ 14)\<bar> \<le> pi * (1 + 3 * DBL_EPSILON)"
    by (simp add: DBL_EPSILON_def abs_mult)
  have "proj_adjlon (pi * (1 + 2 / 10 ^ 14)) = pi * (1 + 2 / 10 ^ 14)"
    by (rule proj_adjlon_unchanged [OF le])
  moreover have "pi * 1 < pi * (1 + 2 / 10 ^ 14)"
    by (intro mult_strict_left_mono) auto
  ultimately show ?thesis by simp
qed

text \<open>
  C1, amended: for every angle \<open>x\<close> the normalizer returns \<open>r\<close> with
  \<open>|r| \<le> pi (1 + 3 DBL_EPSILON)\<close>, where \<open>DBL_EPSILON\<close> is the file's \<open>1e-14\<close>,
  and \<open>r = x - 2 pi k\<close> for an integer \<open>k\<close>.
\<close>

theorem C1_proj_adjlon_range_cong:
  "- (pi * (1 + 3 * DBL_EPSILON)) \<le> proj_adjlon x \<and>
   proj_adjlon x \<le> pi * (1 + 3 * DBL_EPSILON) \<and>
   (\<exists>k::int. proj_adjlon x = x - 2 * pi * of_int k)"
  using proj_adjlon_abs_le [of x] proj_adjlon_cong [of x] by (simp add: abs_le_iff)

section \<open>The loop of the ellipsoidal direct solver in exact arithmetic\<close>

text \<open>
  In exact arithmetic (the rounding is the identity) the loop is left within 118
  passes, for every input: a pass is \<open>y \<mapsto> G y + tu\<close>, where \<open>G\<close> is a sum
  of three sines with Lipschitz constant \<open>K d = |d| + d\<^sup>2 / 4 + |d|\<^sup>3 / 8\<close>; every
  ellipsoid gives \<open>|d| \<le> 0.63\<close>, hence \<open>K d \<le> 0.77\<close>, and the distance of two
  successive values shrinks by that factor in each pass. This says nothing of double
  arithmetic, where two successive values can stay one unit in the last place apart
  for ever; no theorem on a rounding other than the identity rests on it.
\<close>

lemma sin_lipschitz: "\<bar>sin a - sin b\<bar> \<le> \<bar>a - b\<bar>" for a b :: real
proof -
  have "\<bar>sin a - sin b\<bar> = 2 * \<bar>sin ((a - b) / 2)\<bar> * \<bar>cos ((a + b) / 2)\<bar>"
    by (simp add: sin_diff_sin abs_mult)
  also have "\<dots> \<le> 2 * \<bar>(a - b) / 2\<bar> * 1"
    by (intro mult_mono mult_left_mono abs_sin_x_le_abs_x) auto
  finally show ?thesis by simp
qed

lemma sin_treble: "sin (3 * y) = 3 * sin y - 4 * sin y ^ 3" for y :: real
proof -
  have "sin (3 * y) = sin (2 * y + y)" by simp
  also have "\<dots> = sin (2 * y) * cos y + cos (2 * y) * sin y" by (rule sin_add)
  also have "\<dots> = 2 * sin y * (cos y)\<^sup>2 + (1 - 2 * (sin y)\<^sup>2) * sin y"
    by (simp add: sin_double cos_double_sin power2_eq_square)
  also have "(cos y)\<^sup>2 = 1 - (sin y)\<^sup>2" by (simp add: cos_squared_eq)
  finally have "sin (3 * y) = 2 * sin y * (1 - (sin y)\<^sup>2) + (1 - 2 * (sin y)\<^sup>2) * sin y" .
  also have "\<dots> = 3 * sin y - 4 * sin y ^ 3"
    by (simp add: algebra_simps power2_eq_square power3_eq_cube)
  finally show ?thesis .
qed

lemma cos_sum_times_sin: "cos (az + y) * sin y = (sin (2 * y + az) - sin az) / 2" for az y :: real
proof -
  have e1: "az + y + y = 2 * y + az" and e2: "az + y - y = az" by simp_all
  show ?thesis unfolding cos_times_sin e1 e2 ..
qed

lemma cos_double_sum_times_sin_double: "(cos (az + y) * cos (az + y) * 2 - 1) * cos y * sin y
     = (sin (4 * y + 2 * az) - sin (2 * az)) / 4" for az y :: real
proof -
  have a: "cos (az + y) * cos (az + y) * 2 - 1 = cos (2 * (az + y))"
    unfolding cos_double_cos by (simp add: power2_eq_square)
  have b: "cos y * sin y = sin (2 * y) / 2" by (simp add: sin_double)
  have "(cos (az + y) * cos (az + y) * 2 - 1) * cos y * sin y
        = cos (2 * (az + y)) * sin (2 * y) / 2"
    using a b by (simp add: mult.assoc)
  also have "\<dots> = (sin (4 * y + 2 * az) - sin (2 * az)) / 4"
  proof -
    have "cos (2 * (az + y)) * sin (2 * y) =
          (sin (2 * (az + y) + 2 * y) - sin (2 * (az + y) - 2 * y)) / 2"
      by (rule cos_times_sin)
    also have "2 * (az + y) + 2 * y = 4 * y + 2 * az" by simp
    also have "2 * (az + y) - 2 * y = 2 * az" by simp
    finally show ?thesis by (simp add: mult_ac)
  qed
  finally show ?thesis .
qed

lemma sin_treble_times_cos_treble:
  fixes az y :: real
  defines "cz \<equiv> cos (az + y)" and "sy \<equiv> sin y"
  shows "(sy * sy * 4 - 3) * ((cz * cz * 2 - 1) + (cz * cz * 2 - 1) - 1) * cz * sy
     = - (sin (6 * y + 3 * az) - sin (3 * az)) / 2"
proof -
  have a: "(sy * sy * 4 - 3) * sy = - sin (3 * y)"
    unfolding sin_treble sy_def by (simp add: algebra_simps power3_eq_cube)
  have b: "((cz * cz * 2 - 1) + (cz * cz * 2 - 1) - 1) * cz = cos (3 * (az + y))"
    unfolding cos_treble_cos cz_def by (simp add: algebra_simps power3_eq_cube)
  have "(sy * sy * 4 - 3) * ((cz * cz * 2 - 1) + (cz * cz * 2 - 1) - 1) * cz * sy
        = ((sy * sy * 4 - 3) * sy) * (((cz * cz * 2 - 1) + (cz * cz * 2 - 1) - 1) * cz)"
    by (simp add: algebra_simps)
  also have "\<dots> = - (sin (3 * y) * cos (3 * (az + y)))" by (simp only: a b mult_minus_left)
  also have "\<dots> = - (sin (6 * y + 3 * az) - sin (3 * az)) / 2"
  proof -
    have "sin (3 * y) * cos (3 * (az + y)) =
          (sin (3 * y + 3 * (az + y)) + sin (3 * y - 3 * (az + y))) / 2"
      by (rule sin_times_cos)
    also have "3 * y + 3 * (az + y) = 6 * y + 3 * az" by simp
    also have "3 * y - 3 * (az + y) = - (3 * az)" by simp
    finally show ?thesis by simp
  qed
  finally show ?thesis .
qed

lemma in_fwd_body_G: "in_fwd_body az d tu y = in_fwd_G az d y + tu"
proof -
  define cz where "cz = cos (az + y)"
  define sy where "sy = sin y"
  define cy where "cy = cos y"
  define e where "e = cz * cz * 2 - 1"
  have "in_fwd_body az d tu y =
        (((sy * sy * 4 - 3) * (e + e - 1) * cz * d / 6 + e * cy) * d / 4 - cz) * sy * d + tu"
    by (simp add: in_fwd_body_def Let_def cz_def sy_def cy_def e_def)
  also have "\<dots> = ((sy * sy * 4 - 3) * (e + e - 1) * cz * sy) * (d * d * d / 24)
                 + (e * cy * sy) * (d * d / 4) - (cz * sy) * d + tu"
    by (simp add: field_simps)
  also have "(sy * sy * 4 - 3) * (e + e - 1) * cz * sy = - (sin (6 * y + 3 * az) - sin (3 * az)) / 2"
    unfolding e_def cz_def sy_def by (rule sin_treble_times_cos_treble)
  also have "e * cy * sy = (sin (4 * y + 2 * az) - sin (2 * az)) / 4"
    unfolding e_def cz_def sy_def cy_def by (rule cos_double_sum_times_sin_double)
  also have "cz * sy = (sin (2 * y + az) - sin az) / 2"
    unfolding cz_def sy_def by (rule cos_sum_times_sin)
  finally have X: "in_fwd_body az d tu y =
      - (sin (6 * y + 3 * az) - sin (3 * az)) / 2 * (d * d * d / 24) +
      (sin (4 * y + 2 * az) - sin (2 * az)) / 4 * (d * d / 4) -
      (sin (2 * y + az) - sin az) / 2 * d + tu" .
  show ?thesis unfolding X in_fwd_G_def by (simp add: field_simps)
qed


lemma sin_lipschitz_lin: "\<bar>sin (k * u + c) - sin (k * v + c)\<bar> \<le> \<bar>k\<bar> * \<bar>u - v\<bar>"
  for k u v c :: real
proof -
  have "k * u + c - (k * v + c) = k * (u - v)" by (simp add: algebra_simps)
  then have "\<bar>k * u + c - (k * v + c)\<bar> = \<bar>k\<bar> * \<bar>u - v\<bar>" by (simp only: abs_mult)
  with sin_lipschitz [of "k * u + c" "k * v + c"] show ?thesis by simp
qed

lemma in_fwd_K_nonneg: "0 \<le> in_fwd_K d"
  by (simp add: in_fwd_K_def)

lemma in_fwd_G_lipschitz: "\<bar>in_fwd_G az d u - in_fwd_G az d v\<bar> \<le> in_fwd_K d * \<bar>u - v\<bar>"
proof -
  have s1: "\<bar>sin (2 * u + az) - sin (2 * v + az)\<bar> \<le> 2 * \<bar>u - v\<bar>"
    using sin_lipschitz_lin [of 2 u az v] by simp
  have s2: "\<bar>sin (4 * u + 2 * az) - sin (4 * v + 2 * az)\<bar> \<le> 4 * \<bar>u - v\<bar>"
    using sin_lipschitz_lin [of 4 u "2 * az" v] by simp
  have s3: "\<bar>sin (6 * u + 3 * az) - sin (6 * v + 3 * az)\<bar> \<le> 6 * \<bar>u - v\<bar>"
    using sin_lipschitz_lin [of 6 u "3 * az" v] by simp
  have eq: "in_fwd_G az d u - in_fwd_G az d v =
        - (d / 2) * (sin (2 * u + az) - sin (2 * v + az))
        + (d * d / 16) * (sin (4 * u + 2 * az) - sin (4 * v + 2 * az))
        - (d * d * d / 48) * (sin (6 * u + 3 * az) - sin (6 * v + 3 * az))"
    by (simp add: in_fwd_G_def algebra_simps)
  have t1: "\<bar>- (d / 2) * (sin (2 * u + az) - sin (2 * v + az))\<bar> \<le> \<bar>d\<bar> / 2 * (2 * \<bar>u - v\<bar>)"
    unfolding abs_mult using s1 by (intro mult_mono) auto
  have t2: "\<bar>(d * d / 16) * (sin (4 * u + 2 * az) - sin (4 * v + 2 * az))\<bar>
        \<le> d * d / 16 * (4 * \<bar>u - v\<bar>)"
    unfolding abs_mult using s2 by (intro mult_mono) (auto simp: abs_mult)
  have t3: "\<bar>(d * d * d / 48) * (sin (6 * u + 3 * az) - sin (6 * v + 3 * az))\<bar>
        \<le> \<bar>d\<bar> * (d * d) / 48 * (6 * \<bar>u - v\<bar>)"
    unfolding abs_mult using s3 by (intro mult_mono) (auto simp: abs_mult)
  have "\<bar>in_fwd_G az d u - in_fwd_G az d v\<bar> \<le>
        \<bar>d\<bar> / 2 * (2 * \<bar>u - v\<bar>) + d * d / 16 * (4 * \<bar>u - v\<bar>) + \<bar>d\<bar> * (d * d) / 48 * (6 * \<bar>u - v\<bar>)"
    unfolding eq using t1 t2 t3 by linarith
  also have "\<dots> = in_fwd_K d * \<bar>u - v\<bar>"
    by (simp add: in_fwd_K_def algebra_simps)
  finally show ?thesis .
qed

lemma in_fwd_G_bound: "\<bar>in_fwd_G az d y\<bar> \<le> in_fwd_K d"
proof -
  have b: "\<bar>sin p - sin q\<bar> \<le> 2" for p q :: real
    using abs_sin_le_one [of p] abs_sin_le_one [of q] by linarith
  have t1: "\<bar>- (d / 2) * (sin (2 * y + az) - sin az)\<bar> \<le> \<bar>d\<bar> / 2 * 2"
    unfolding abs_mult using b by (intro mult_mono) auto
  have t2: "\<bar>(d * d / 16) * (sin (4 * y + 2 * az) - sin (2 * az))\<bar> \<le> d * d / 16 * 2"
    unfolding abs_mult using b by (intro mult_mono) (auto simp: abs_mult)
  have t3: "\<bar>(d * d * d / 48) * (sin (6 * y + 3 * az) - sin (3 * az))\<bar> \<le> \<bar>d\<bar> * (d * d) / 48 * 2"
    unfolding abs_mult using b by (intro mult_mono) (auto simp: abs_mult)
  have "\<bar>in_fwd_G az d y\<bar> \<le> \<bar>d\<bar> / 2 * 2 + d * d / 16 * 2 + \<bar>d\<bar> * (d * d) / 48 * 2"
    unfolding in_fwd_G_def using t1 t2 t3 by linarith
  also have "\<dots> \<le> in_fwd_K d"
  proof -
    have "0 \<le> d * d" by simp
    moreover have "0 \<le> \<bar>d\<bar> * (d * d)" by simp
    ultimately show ?thesis unfolding in_fwd_K_def by linarith
  qed
  finally show ?thesis .
qed

lemma in_fwd_loop_terminates:
  assumes "\<bar>in_fwd_body az d tu y - y\<bar> \<le> \<delta>" and "\<delta> * in_fwd_K d ^ n \<le> EPS"
  shows "in_fwd_loop (\<lambda>x. x) (Suc n) az d tu y \<noteq> None"
  using assms
proof (induction n arbitrary: y \<delta>)
  case 0
  then show ?case by (simp add: Let_def)
next
  case (Suc n)
  let ?y' = "in_fwd_body az d tu y"
  show ?case
  proof (cases "\<bar>?y' - y\<bar> > EPS")
    case False
    then show ?thesis by (simp add: Let_def)
  next
    case True
    have "\<bar>in_fwd_body az d tu ?y' - ?y'\<bar> = \<bar>in_fwd_G az d ?y' - in_fwd_G az d y\<bar>"
      by (simp add: in_fwd_body_G [of az d tu])
    also have "\<dots> \<le> in_fwd_K d * \<bar>?y' - y\<bar>" by (rule in_fwd_G_lipschitz)
    also have "\<dots> \<le> in_fwd_K d * \<delta>"
      using Suc.prems(1) in_fwd_K_nonneg by (intro mult_left_mono) auto
    finally have step: "\<bar>in_fwd_body az d tu ?y' - ?y'\<bar> \<le> in_fwd_K d * \<delta>" .
    have "in_fwd_K d * \<delta> * in_fwd_K d ^ n = \<delta> * in_fwd_K d ^ Suc n" by simp
    with Suc.prems(2) have "in_fwd_K d * \<delta> * in_fwd_K d ^ n \<le> EPS" by (simp only:)
    from Suc.IH [OF step this] have "in_fwd_loop (\<lambda>x. x) (Suc n) az d tu ?y' \<noteq> None" .
    moreover have "in_fwd_loop (\<lambda>x. x) (Suc (Suc n)) az d tu y = in_fwd_loop (\<lambda>x. x) (Suc n) az d tu ?y'"
      using True by (subst in_fwd_loop.simps(2)) (simp add: Let_def del: in_fwd_loop.simps)
    ultimately show ?thesis by (simp del: in_fwd_loop.simps)
  qed
qed


lemma in_fwd_x_range: "- 1 \<le> in_fwd_x r phi1 az \<and> in_fwd_x r phi1 az \<le> 1"
proof -
  define tu where "tu = r * sin phi1 / cos phi1"
  define cu where "cu = 1 / sqrt (tu * tu + 1)"
  define sa where "sa = cu * sin az"
  define c2a where "c2a = - sa * sa + 1"
  define s where "s = sqrt ((1 / r / r - 1) * c2a + 1) + 1"
  have x: "in_fwd_x r phi1 az = (s - 2) / s"
    by (simp add: in_fwd_x_def Let_def tu_def cu_def sa_def c2a_def s_def)
  have sq: "1 \<le> sqrt (tu * tu + 1)" by simp
  then have "0 \<le> 1 / sqrt (tu * tu + 1)" by (intro divide_nonneg_nonneg) auto
  moreover from sq have "1 / sqrt (tu * tu + 1) \<le> 1"
    by (subst divide_le_eq_1_pos) linarith+
  ultimately have cu: "0 \<le> cu" "cu \<le> 1" by (simp_all add: cu_def)
  have "\<bar>sa\<bar> \<le> 1 * 1" unfolding sa_def abs_mult
    using cu by (intro mult_mono) auto
  then have "sa * sa \<le> 1" using abs_le_square_iff [of sa 1] by (simp add: power2_eq_square)
  then have c2a: "0 \<le> c2a" "c2a \<le> 1" by (simp_all add: c2a_def)
  define k where "k = 1 / r / r"
  have "0 \<le> k" by (simp add: k_def field_simps)
  then have "0 \<le> k * c2a" using c2a by simp
  moreover have "(k - 1) * c2a + 1 = k * c2a + (1 - c2a)" by (simp add: algebra_simps)
  ultimately have "0 \<le> (k - 1) * c2a + 1" using c2a by simp
  then have "0 \<le> (1 / r / r - 1) * c2a + 1" by (simp only: k_def)
  then have s1: "1 \<le> s" by (simp add: s_def)
  then have "- s \<le> s - 2" "s - 2 \<le> s" by simp_all
  with s1 have "- 1 \<le> (s - 2) / s" "(s - 2) / s \<le> 1"
    by (simp_all add: pos_le_divide_eq pos_divide_le_eq)
  with x show ?thesis by simp
qed

lemma in_fwd_d_bound:
  assumes "- 1 \<le> x" "x \<le> 1"
  shows "\<bar>in_fwd_d x\<bar> \<le> 63 / 100"
proof -
  define t where "t = \<bar>x\<bar>"
  have t: "0 \<le> t" "t \<le> 1" using assms by (simp_all add: t_def)
  have tt: "x * x = t * t" by (simp add: t_def)
  have "0 \<le> 1 - 0.375 * (t * t)"
  proof -
    have "t * t \<le> 1 * 1" using t by (intro mult_mono) auto
    then show ?thesis by simp
  qed
  then have nn: "\<bar>1 - 0.375 * (t * t)\<bar> = 1 - 0.375 * (t * t)" by (rule abs_of_nonneg)
  have "in_fwd_d x = - (x * (1 - 0.375 * (t * t)))"
    by (simp add: in_fwd_d_def tt [symmetric] algebra_simps)
  then have "\<bar>in_fwd_d x\<bar> = \<bar>x\<bar> * \<bar>1 - 0.375 * (t * t)\<bar>"
    by (simp only: abs_minus abs_mult)
  then have "\<bar>in_fwd_d x\<bar> = t * (1 - 0.375 * (t * t))"
    by (simp only: nn t_def [symmetric])
  moreover have "t * (1 - 0.375 * (t * t)) \<le> 63 / 100"
  proof -
    have "0 \<le> (35 * t - 33) * (35 * t - 33) * (35 * t + 66)"
      using t by (intro mult_nonneg_nonneg zero_le_square) auto
    moreover define q where "q = t * t * t"
    moreover have "(35 * t - 33) * (35 * t - 33) * (35 * t + 66) =
          42875 * q - 114345 * t + 71874"
      by (simp add: q_def algebra_simps)
    ultimately have h: "0 \<le> 42875 * q - 114345 * t + 71874" by simp
    have g: "t * (1 - 0.375 * (t * t)) = t - 0.375 * q" by (simp add: q_def algebra_simps)
    have "t - (3 / 8) * q \<le> 63 / 100" using h t by linarith
    then show ?thesis unfolding g by simp
  qed
  ultimately show ?thesis by simp
qed

lemma in_fwd_K_bound:
  assumes "\<bar>d\<bar> \<le> 63 / 100"
  shows "in_fwd_K d \<le> 77 / 100"
proof -
  have dd: "d * d \<le> (63 / 100) * (63 / 100)"
  proof -
    have "\<bar>d\<bar> * \<bar>d\<bar> \<le> (63 / 100) * (63 / 100)" using assms by (intro mult_mono) auto
    then show ?thesis by simp
  qed
  have "\<bar>d\<bar> * (d * d) \<le> (63 / 100) * ((63 / 100) * (63 / 100))"
    by (rule mult_mono) (use assms dd in auto)
  with assms dd show ?thesis unfolding in_fwd_K_def by linarith
qed

lemma pow_bound: "(77 / 100 :: real) ^ 118 \<le> 5 / 10 ^ 14"
  by (simp add: power_divide)


lemma in_fwd_loop_118:
  assumes "\<bar>d\<bar> \<le> 63 / 100"
  shows "in_fwd_loop (\<lambda>x. x) 118 az d tu tu \<noteq> None"
proof -
  have K: "0 \<le> in_fwd_K d" "in_fwd_K d \<le> 77 / 100"
    using in_fwd_K_nonneg in_fwd_K_bound [OF assms] by auto
  have "\<bar>in_fwd_body az d tu tu - tu\<bar> = \<bar>in_fwd_G az d tu\<bar>"
    by (simp add: in_fwd_body_G)
  then have d0: "\<bar>in_fwd_body az d tu tu - tu\<bar> \<le> in_fwd_K d"
    using in_fwd_G_bound [of az d tu] by simp
  have "in_fwd_K d * in_fwd_K d ^ 117 = in_fwd_K d ^ Suc 117" by (simp only: power_Suc)
  also have "\<dots> \<le> (77 / 100) ^ Suc 117" using K by (intro power_mono) auto
  also have "\<dots> \<le> EPS" unfolding EPS_def by (simp add: power_divide)
  finally have "in_fwd_K d * in_fwd_K d ^ 117 \<le> EPS" .
  from in_fwd_loop_terminates [OF d0 this] have "in_fwd_loop (\<lambda>x. x) (Suc 117) az d tu tu \<noteq> None" .
  moreover have "Suc 117 = 118" by simp
  ultimately show ?thesis by (simp del: in_fwd_loop.simps)
qed

lemma in_fwd_loop_mono:
  "in_fwd_loop fl n az d tu y = Some v \<Longrightarrow> n \<le> m \<Longrightarrow> in_fwd_loop fl m az d tu y = Some v"
proof (induction n arbitrary: m y)
  case 0
  then show ?case by simp
next
  case (Suc n)
  then obtain m' where m: "m = Suc m'" and le: "n \<le> m'" by (cases m) auto
  show ?case
  proof (cases "\<bar>fl (in_fwd_body az d tu y) - y\<bar> > EPS")
    case True
    with Suc.prems(1) have "in_fwd_loop fl n az d tu (fl (in_fwd_body az d tu y)) = Some v"
      by (simp add: Let_def)
    from Suc.IH [OF this le] show ?thesis using True by (simp add: m Let_def)
  next
    case False
    with Suc.prems(1) show ?thesis by (simp add: m Let_def)
  qed
qed

lemma in_fwd_loop_exit:
  "in_fwd_loop fl n az d tu y = Some (sy, cy, cz, e, y') \<Longrightarrow>
   \<exists>c. y' = fl (in_fwd_body az d tu c) \<and> \<bar>y' - c\<bar> \<le> EPS \<and> sy = sin c \<and> cy = cos c \<and>
       cz = cos (az + c) \<and> e = cz * cz * 2 - 1"
proof (induction n arbitrary: y)
  case 0
  then show ?case by simp
next
  case (Suc n)
  show ?case
  proof (cases "\<bar>fl (in_fwd_body az d tu y) - y\<bar> > EPS")
    case True
    with Suc.prems have "in_fwd_loop fl n az d tu (fl (in_fwd_body az d tu y)) = Some (sy, cy, cz, e, y')"
      by (simp add: Let_def)
    from Suc.IH [OF this] show ?thesis .
  next
    case False
    with Suc.prems have "y' = fl (in_fwd_body az d tu y) \<and> \<bar>y' - y\<bar> \<le> EPS \<and> sy = sin y \<and>
        cy = cos y \<and> cz = cos (az + y) \<and> e = cz * cz * 2 - 1"
      by (auto simp: Let_def)
    then show ?thesis by blast
  qed
qed

lemma in_fwd_d_x_bound: "\<bar>in_fwd_d (in_fwd_x r phi1 az)\<bar> \<le> 63 / 100"
  using in_fwd_x_range [of r phi1 az] by (intro in_fwd_d_bound) auto

lemma proj_in_fwd_not_NoFuel:
  assumes "118 \<le> fuel"
  shows "proj_in_fwd (\<lambda>x. x) fuel A s \<noteq> NoFuel"
proof (cases "\<exists>e p1. line_E A = Ptr e \<and> pt1 A = Ptr p1")
  case False
  then show ?thesis by (auto simp: proj_in_fwd_def split: ptr.splits)
next
  case True
  then obtain e p1 where p: "line_E A = Ptr e" "pt1 A = Ptr p1" by blast
  define r where "r = 1 - ell_f (ells s e)"
  define az where "az = in_fwd_az21 r (phi (pts s p1)) (az12 A)"
  define d where "d = in_fwd_d (in_fwd_x r (phi (pts s p1)) (az12 A))"
  define tu where "tu = in_fwd_tu (line_S A) (ell_a (ells s e)) r (in_fwd_x r (phi (pts s p1)) (az12 A))"
  have "in_fwd_loop (\<lambda>x. x) 118 az d tu tu \<noteq> None"
    unfolding d_def by (rule in_fwd_loop_118 [OF in_fwd_d_x_bound])
  then obtain v where "in_fwd_loop (\<lambda>x. x) 118 az d tu tu = Some v" by blast
  from in_fwd_loop_mono [OF this assms] have "in_fwd_loop (\<lambda>x. x) fuel az d tu tu = Some v" .
  then show ?thesis
    using p by (simp add: proj_in_fwd_def Let_def r_def az_def d_def tu_def split: prod.splits ptr.splits)
qed


section \<open>What the direct solvers write\<close>

lemma wr_simps [simp]:
  "ells (wr_phi p v s) = ells s" "ells (wr_lam p v s) = ells s"
  "q \<noteq> p \<Longrightarrow> pts (wr_phi p v s) q = pts s q"
  "q \<noteq> p \<Longrightarrow> pts (wr_lam p v s) q = pts s q"
  "lam (pts (wr_phi p v s) q) = lam (pts s q)"
  "phi (pts (wr_lam p v s) q) = phi (pts s q)"
  "hgt (pts (wr_phi p v s) q) = hgt (pts s q)"
  "hgt (pts (wr_lam p v s) q) = hgt (pts s q)"
  "phi (pts (wr_phi p v s) p) = v"
  "lam (pts (wr_lam p v s) p) = v"
  by (simp_all add: wr_phi_def wr_lam_def)

lemma store_frame_refl: "store_frame p2 s s"
  by (simp add: store_frame_def)

lemma store_frame_wr_lam: "store_frame p2 s s' \<Longrightarrow> store_frame p2 s (wr_lam p2 v s')"
  by (simp add: store_frame_def)

lemma store_frame_wr_phi: "store_frame p2 s s' \<Longrightarrow> store_frame p2 s (wr_phi p2 v s')"
  by (simp add: store_frame_def)

lemmas store_frame_intros = store_frame_refl store_frame_wr_lam store_frame_wr_phi






lemma proj_in_fwd_result:
  assumes "proj_in_fwd fl fuel A s = Ok (A', s')"
  shows "\<exists>p2. pt2 A = Ptr p2 \<and> A'\<lparr>az21 := az21 A, az12 := az12 A\<rparr> = A \<and>
           az12 A' = proj_adjlon (az12 A) \<and> store_frame p2 s s'"
proof -
  from assms obtain e p1 where p: "line_E A = Ptr e" "pt1 A = Ptr p1"
    by (auto simp: proj_in_fwd_def split: ptr.splits)
  from assms obtain p2 where p2: "pt2 A = Ptr p2"
    by (auto simp: proj_in_fwd_def p Let_def split: ptr.splits option.splits prod.splits)
  from assms show ?thesis
    by (auto simp: proj_in_fwd_def p p2 Let_def store_frame_intros
        split: option.splits prod.splits)
qed



lemma proj_sp_fwd_Ok:
  assumes "line_E A = Ptr e" "pt1 A = Ptr p1" "pt2 A = Ptr p2"
  shows "\<exists>A' s'. proj_sp_fwd A s = Ok (A', s')"
  using assms by (simp add: proj_sp_fwd_def Let_def)


section \<open>Lines and stores of the examples; the passes of exact arithmetic\<close>

lemma example_simps [simp]:
  "pt1 (line_of az len) = Ptr 1" "pt2 (line_of az len) = Ptr 2" "line_E (line_of az len) = Ptr 0"
  "az12 (line_of az len) = az" "az21 (line_of az len) = 0" "line_S (line_of az len) = len"
  "pts (store_of P1 P2 El) 1 = P1" "pts (store_of P1 P2 El) (Suc 0) = P1"
  "pts (store_of P1 P2 El) 2 = P2"
  "ells (store_of P1 P2 El) e = El"
  "lam (point l p) = l" "phi (point l p) = p"
  "ell_a (ellipsoid a f) = a" "ell_f (ellipsoid a f) = f" "ell_es (ellipsoid a f) = f * (2 - f)"
  by (simp_all add: line_of_def store_of_def point_def ellipsoid_def)

lemma proj_in_fwd_fuel:
  assumes "118 \<le> fuel"
  shows "proj_in_fwd (\<lambda>x. x) fuel A s = proj_in_fwd (\<lambda>x. x) 118 A s"
proof (cases "\<exists>e p1. line_E A = Ptr e \<and> pt1 A = Ptr p1")
  case False
  then show ?thesis by (auto simp: proj_in_fwd_def split: ptr.splits)
next
  case True
  then obtain e p1 where p: "line_E A = Ptr e" "pt1 A = Ptr p1" by blast
  define r where "r = 1 - ell_f (ells s e)"
  define az where "az = in_fwd_az21 r (phi (pts s p1)) (az12 A)"
  define d where "d = in_fwd_d (in_fwd_x r (phi (pts s p1)) (az12 A))"
  define tu where "tu = in_fwd_tu (line_S A) (ell_a (ells s e)) r (in_fwd_x r (phi (pts s p1)) (az12 A))"
  have "in_fwd_loop (\<lambda>x. x) 118 az d tu tu \<noteq> None"
    unfolding d_def by (rule in_fwd_loop_118 [OF in_fwd_d_x_bound])
  then obtain v where v: "in_fwd_loop (\<lambda>x. x) 118 az d tu tu = Some v" by blast
  from in_fwd_loop_mono [OF this assms] have "in_fwd_loop (\<lambda>x. x) fuel az d tu tu = Some v" .
  with v have "in_fwd_loop (\<lambda>x. x) fuel az d tu tu = in_fwd_loop (\<lambda>x. x) 118 az d tu tu" by simp
  then show ?thesis
    using p by (simp add: proj_in_fwd_def Let_def r_def az_def d_def tu_def del: in_fwd_loop.simps)
qed

section \<open>The loop of the ellipsoidal direct solver has no cap\<close>

text \<open>
  One pass that does not pass the test hands the stored value to the next pass, and
  uses up one of the passes allowed; nothing else ends the loop.
\<close>

lemma in_fwd_loop_pass:
  assumes "EPS < \<bar>fl (in_fwd_body az d tu y) - y\<bar>"
  shows "in_fwd_loop fl (Suc n) az d tu y = in_fwd_loop fl n az d tu (fl (in_fwd_body az d tu y))"
  using assms by (simp add: Let_def)

lemma in_fwd_body_cycle:
  "in_fwd_body (pi / 3) (pi / sqrt 3) (pi / 2) (pi / 2) = pi"
  "in_fwd_body (pi / 3) (pi / sqrt 3) (pi / 2) pi = pi / 2"
proof -
  have c: "cos (pi / 3 + pi / 2) = - (sqrt 3 / 2)"
    unfolding cos_add by (simp add: sin_60)
  have "sqrt 3 * sqrt 3 = 3" by simp
  then have q: "(sqrt 3 / 2) * (sqrt 3 / 2) * 2 - 1 = 1 / 2" by simp
  show "in_fwd_body (pi / 3) (pi / sqrt 3) (pi / 2) (pi / 2) = pi"
    unfolding in_fwd_body_def Let_def c by (simp add: q)
  show "in_fwd_body (pi / 3) (pi / sqrt 3) (pi / 2) pi = pi / 2"
    unfolding in_fwd_body_def Let_def by simp
qed

text \<open>
  C3. The spec has the iteration on \<open>y\<close> stop when two successive values agree within
  \<open>5e-14\<close>, and has an iteration cap end it on the inputs for which that never
  happens. The loop of \<^verbatim>\<open>proj_in_fwd\<close> has the test and no cap; the two loops of
  \<^verbatim>\<open>proj_in_inv.c\<close> have one (\<^verbatim>\<open>++iter <= 6\<close>, \<^verbatim>\<open>++kount <= 7\<close>). So when
  the stored value alternates between two values \<open>a\<close> and \<open>b\<close> that are more than
  \<open>5e-14\<close> apart, the loop is never left, whatever number of passes is allowed.

  In exact arithmetic no input of the solver does this (\<open>in_fwd_loop_118\<close>). In
  double arithmetic two neighbouring values of \<^verbatim>\<open>y\<close> above 256 are
  \<open>1 / 2 ^ 44\<close>, more than \<open>5e-14\<close>, apart, and the stored value can alternate
  between them: evaluating the statements of the source in IEEE binary64 from point1
  \<open>(lam, phi) = (0, 0)\<close>, azimuth \<open>2.0\<close> and \<open>S = 314.75\<close> on the ellipsoid
  \<open>a = 1\<close>, \<open>f = 1 / 298.257223563\<close>, \<^verbatim>\<open>y\<close> alternates between
  \<open>315.716750376868\<close> and \<open>315.71675037686805\<close> from the third pass on. That
  evaluation is not part of this theory, whose numbers are reals; the theorem states
  what follows once the stored value alternates.
\<close>

theorem C3_in_fwd_loop_never_left:
  assumes "fl (in_fwd_body az d tu a) = b" and "fl (in_fwd_body az d tu b) = a"
    and "EPS < \<bar>a - b\<bar>"
  shows "in_fwd_loop fl n az d tu a = None \<and> in_fwd_loop fl n az d tu b = None"
proof (induction n)
  case 0
  show ?case by simp
next
  case (Suc n)
  from assms(3) have "EPS < \<bar>b - a\<bar>" by (simp add: abs_minus_commute)
  with assms Suc show ?case by (simp add: Let_def)
qed

text \<open>
  The assumptions hold of \<open>a = pi / 2\<close> and \<open>b = pi\<close> in exact arithmetic, for
  \<^verbatim>\<open>A->az21\<close> \<open>= pi / 3\<close>, \<open>d = pi / sqrt 3\<close> and \<open>tu = pi / 2\<close>. (This is a
  state of the loop only: no ellipsoid gives this \<open>d\<close>.)
\<close>

theorem C3_in_fwd_loop_never_left_witness:
  "in_fwd_body (pi / 3) (pi / sqrt 3) (pi / 2) (pi / 2) = pi \<and>
   in_fwd_body (pi / 3) (pi / sqrt 3) (pi / 2) pi = pi / 2 \<and>
   EPS < \<bar>pi / 2 - pi\<bar> \<and>
   (\<forall>n. in_fwd_loop (\<lambda>x. x) n (pi / 3) (pi / sqrt 3) (pi / 2) (pi / 2) = None)"
proof -
  have "2 \<le> pi" by (rule pi_ge_two)
  then have e: "EPS < \<bar>pi / 2 - pi\<bar>" by (simp add: EPS_def)
  have b: "in_fwd_body (pi / 3) (pi / sqrt 3) (pi / 2) (pi / 2) = pi"
    "in_fwd_body (pi / 3) (pi / sqrt 3) (pi / 2) pi = pi / 2"
    by (rule in_fwd_body_cycle)+
  have "in_fwd_loop (\<lambda>x. x) n (pi / 3) (pi / sqrt 3) (pi / 2) (pi / 2) = None" for n
    using C3_in_fwd_loop_never_left [of "\<lambda>x. x" "pi / 3" "pi / sqrt 3" "pi / 2" "pi / 2" pi n] b e
    by simp
  with b e show ?thesis by blast
qed

section \<open>The combined entry point of the direct problem\<close>

text \<open>
  C2, as the spec states it: \<^verbatim>\<open>proj_gforward\<close> returns non-zero and changes nothing
  exactly when \<^verbatim>\<open>A->pt1\<close> is \<open>NULL\<close>, \<^verbatim>\<open>A->S <= 0\<close> or \<^verbatim>\<open>A->E\<close> is
  \<open>NULL\<close>, and returns 0 for every other input. With \<^verbatim>\<open>A->pt2\<close> \<open>NULL\<close> it
  passes the test and the solver stores through the \<open>NULL\<close> pointer.
\<close>

theorem C2_pt2_NULL_counterexample:
  "proj_gforward (\<lambda>x. x) 118 ((line_of 0 1)\<lparr>pt2 := NULL\<rparr>)
     (store_of (point 0 0) (point 0 0) (ellipsoid 1 0)) = NullDeref"
  by (simp add: proj_gforward_def proj_sp_fwd_def line_of_def)

text \<open>
  C2, amended: \<^verbatim>\<open>proj_gforward\<close> returns 1 and changes neither the line nor the
  store when \<^verbatim>\<open>A->pt1\<close> is \<open>NULL\<close>, \<^verbatim>\<open>A->S <= 0\<close> or \<^verbatim>\<open>A->E\<close> is \<open>NULL\<close>.
  For every other input:
  if the flattening is 0 and \<^verbatim>\<open>A->pt2\<close> is not \<open>NULL\<close>, it returns 0 with the line
  and the store as the spherical solver leaves them;
  if the flattening is not 0, it runs the ellipsoidal solver, and returns 0 with the
  line and the store as that solver leaves them whenever that solver returns, which
  with \<^verbatim>\<open>A->pt2\<close> not \<open>NULL\<close> it does as soon as its loop is left (whether
  the loop is left is not the entry point's matter: it holds for whatever rounding
  and whatever number of passes);
  if \<^verbatim>\<open>A->pt2\<close> is \<open>NULL\<close>, it never returns: the solver it runs dereferences
  \<open>NULL\<close>, the spherical one at once and the ellipsoidal one when its loop is left.
\<close>

theorem C2_proj_gforward:
  "(pt1 A = NULL \<or> line_S A \<le> 0 \<or> line_E A = NULL \<longrightarrow>
      proj_gforward fl fuel A s = Ok (1, A, s)) \<and>
   (pt1 A \<noteq> NULL \<and> 0 < line_S A \<and> line_E A = Ptr e \<and> ell_f (ells s e) = 0 \<and> pt2 A \<noteq> NULL \<longrightarrow>
      (\<exists>A' s'. proj_sp_fwd A s = Ok (A', s') \<and> proj_gforward fl fuel A s = Ok (0, A', s'))) \<and>
   (pt1 A \<noteq> NULL \<and> 0 < line_S A \<and> line_E A = Ptr e \<and> ell_f (ells s e) \<noteq> 0 \<longrightarrow>
      (\<forall>A' s'. proj_in_fwd fl fuel A s = Ok (A', s') \<longrightarrow>
         proj_gforward fl fuel A s = Ok (0, A', s')) \<and>
      (pt2 A \<noteq> NULL \<and> proj_in_fwd fl fuel A s \<noteq> NoFuel \<longrightarrow>
         (\<exists>A' s'. proj_in_fwd fl fuel A s = Ok (A', s') \<and>
            proj_gforward fl fuel A s = Ok (0, A', s'))) \<and>
      (proj_in_fwd fl fuel A s = NoFuel \<longrightarrow> proj_gforward fl fuel A s = NoFuel)) \<and>
   (pt1 A \<noteq> NULL \<and> 0 < line_S A \<and> line_E A = Ptr e \<and> pt2 A = NULL \<longrightarrow>
      (\<forall>r. proj_gforward fl fuel A s \<noteq> Ok r) \<and>
      (ell_f (ells s e) = 0 \<or> proj_in_fwd fl fuel A s \<noteq> NoFuel \<longrightarrow>
         proj_gforward fl fuel A s = NullDeref))"
proof (intro conjI impI allI)
  assume "pt1 A = NULL \<or> line_S A \<le> 0 \<or> line_E A = NULL"
  then show "proj_gforward fl fuel A s = Ok (1, A, s)" by (auto simp: proj_gforward_def)
next
  assume h: "pt1 A \<noteq> NULL \<and> 0 < line_S A \<and> line_E A = Ptr e \<and> ell_f (ells s e) = 0 \<and> pt2 A \<noteq> NULL"
  then obtain p1 p2 where p: "line_E A = Ptr e" "pt1 A = Ptr p1" "pt2 A = Ptr p2"
    by (cases "pt1 A"; cases "pt2 A") auto
  from proj_sp_fwd_Ok [OF p, of s] obtain A' s' where "proj_sp_fwd A s = Ok (A', s')" by blast
  then show "\<exists>A' s'. proj_sp_fwd A s = Ok (A', s') \<and> proj_gforward fl fuel A s = Ok (0, A', s')"
    using h by (auto simp: proj_gforward_def)
next
  fix A' s'
  assume "pt1 A \<noteq> NULL \<and> 0 < line_S A \<and> line_E A = Ptr e \<and> ell_f (ells s e) \<noteq> 0"
    and "proj_in_fwd fl fuel A s = Ok (A', s')"
  then show "proj_gforward fl fuel A s = Ok (0, A', s')" by (auto simp: proj_gforward_def)
next
  assume h: "pt1 A \<noteq> NULL \<and> 0 < line_S A \<and> line_E A = Ptr e \<and> ell_f (ells s e) \<noteq> 0"
    and q: "pt2 A \<noteq> NULL \<and> proj_in_fwd fl fuel A s \<noteq> NoFuel"
  then obtain p1 p2 where p: "line_E A = Ptr e" "pt1 A = Ptr p1" "pt2 A = Ptr p2"
    by (cases "pt1 A"; cases "pt2 A") auto
  have "proj_in_fwd fl fuel A s \<noteq> NullDeref"
    using p by (simp add: proj_in_fwd_def Let_def split: option.splits prod.splits)
  with q obtain A' s' where r: "proj_in_fwd fl fuel A s = Ok (A', s')"
    by (cases "proj_in_fwd fl fuel A s") auto
  with h have "proj_gforward fl fuel A s = Ok (0, A', s')" by (auto simp: proj_gforward_def)
  with r show "\<exists>A' s'. proj_in_fwd fl fuel A s = Ok (A', s') \<and>
      proj_gforward fl fuel A s = Ok (0, A', s')" by blast
next
  assume "pt1 A \<noteq> NULL \<and> 0 < line_S A \<and> line_E A = Ptr e \<and> ell_f (ells s e) \<noteq> 0"
    and "proj_in_fwd fl fuel A s = NoFuel"
  then show "proj_gforward fl fuel A s = NoFuel" by (auto simp: proj_gforward_def)
next
  fix r
  assume h: "pt1 A \<noteq> NULL \<and> 0 < line_S A \<and> line_E A = Ptr e \<and> pt2 A = NULL"
  then have sp: "proj_sp_fwd A s = NullDeref"
    by (cases "pt1 A") (auto simp: proj_sp_fwd_def)
  have "\<And>A' s'. proj_in_fwd fl fuel A s \<noteq> Ok (A', s')"
    using proj_in_fwd_result [of fl fuel A s] h by auto
  with sp h show "proj_gforward fl fuel A s \<noteq> Ok r"
    by (cases r) (auto simp: proj_gforward_def split: outcome.splits)
next
  assume h: "pt1 A \<noteq> NULL \<and> 0 < line_S A \<and> line_E A = Ptr e \<and> pt2 A = NULL"
    and c: "ell_f (ells s e) = 0 \<or> proj_in_fwd fl fuel A s \<noteq> NoFuel"
  show "proj_gforward fl fuel A s = NullDeref"
  proof (cases "ell_f (ells s e) = 0")
    case True
    with h show ?thesis by (cases "pt1 A") (auto simp: proj_gforward_def proj_sp_fwd_def)
  next
    case False
    with c have n: "proj_in_fwd fl fuel A s \<noteq> NoFuel" by simp
    have "\<And>A' s'. proj_in_fwd fl fuel A s \<noteq> Ok (A', s')"
      using proj_in_fwd_result [of fl fuel A s] h by auto
    with n have "proj_in_fwd fl fuel A s = NullDeref"
      by (cases "proj_in_fwd fl fuel A s") auto
    with h False show ?thesis by (auto simp: proj_gforward_def)
  qed
qed

theorem C2_proj_gforward_witness:
  "proj_gforward (\<lambda>x. x) 118 (line_of 0 0) (store_of (point 0 0) (point 0 0) (ellipsoid 1 (1 / 300)))
     = Ok (1, line_of 0 0, store_of (point 0 0) (point 0 0) (ellipsoid 1 (1 / 300))) \<and>
   (\<exists>A' s'. proj_sp_fwd (line_of 0 1) (store_of (point 0 0) (point 0 0) (ellipsoid 1 0))
        = Ok (A', s') \<and>
      proj_gforward (\<lambda>x. x) 118 (line_of 0 1) (store_of (point 0 0) (point 0 0) (ellipsoid 1 0))
        = Ok (0, A', s')) \<and>
   (\<exists>A' s'. proj_in_fwd (\<lambda>x. x) 118 (line_of 0 1)
        (store_of (point 0 0) (point 0 0) (ellipsoid 1 (1 / 300))) = Ok (A', s') \<and>
      proj_gforward (\<lambda>x. x) 118 (line_of 0 1)
        (store_of (point 0 0) (point 0 0) (ellipsoid 1 (1 / 300))) = Ok (0, A', s')) \<and>
   proj_gforward (\<lambda>x. x) 118 ((line_of 0 1)\<lparr>pt2 := NULL\<rparr>)
        (store_of (point 0 0) (point 0 0) (ellipsoid 1 0)) = NullDeref"
proof -
  let ?s = "store_of (point 0 0) (point 0 0) (ellipsoid 1 (1 / 300))"
  let ?t = "store_of (point 0 0) (point 0 0) (ellipsoid 1 0)"
  have a: "proj_gforward (\<lambda>x. x) 118 (line_of 0 0) ?s = Ok (1, line_of 0 0, ?s)"
    using C2_proj_gforward [where A = "line_of 0 0" and s = ?s and e = 0] by simp
  have b: "\<exists>A' s'. proj_sp_fwd (line_of 0 1) ?t = Ok (A', s') \<and>
      proj_gforward (\<lambda>x. x) 118 (line_of 0 1) ?t = Ok (0, A', s')"
    using C2_proj_gforward [where A = "line_of 0 1" and s = ?t and e = 0] by simp
  have "proj_in_fwd (\<lambda>x. x) 118 (line_of 0 1) ?s \<noteq> NoFuel"
    by (rule proj_in_fwd_not_NoFuel) simp
  then have c: "\<exists>A' s'. proj_in_fwd (\<lambda>x. x) 118 (line_of 0 1) ?s = Ok (A', s') \<and>
      proj_gforward (\<lambda>x. x) 118 (line_of 0 1) ?s = Ok (0, A', s')"
    using C2_proj_gforward [where A = "line_of 0 1" and s = ?s and e = 0 and fl = "\<lambda>x. x" and fuel = 118]
    by simp
  have d: "proj_gforward (\<lambda>x. x) 118 ((line_of 0 1)\<lparr>pt2 := NULL\<rparr>) ?t = NullDeref"
    using C2_proj_gforward [where A = "(line_of 0 1)\<lparr>pt2 := NULL\<rparr>" and s = ?t and e = 0]
    by simp
  from a b c d show ?thesis by blast
qed

section \<open>The fields a direct solver leaves unchanged\<close>





section \<open>The longitudes the solvers write\<close>











section \<open>The inverse solvers on coincident points\<close>

lemma proj_adjlon_0: "proj_adjlon 0 = 0"
  by (simp add: proj_adjlon_def DBL_EPSILON_def)

lemma atan2_0_0: "atan2 0 0 = 0"
  by (simp add: atan2_def)

lemma merid_arc_same: "merid_arc esq p p = 0"
  by (simp add: merid_arc_def Let_def)

lemma proj_pt_inv_same_point:
  assumes "line_E Arc = Ptr e" "pt1 Arc = Ptr p1" "pt2 Arc = Ptr p2" "pts s p1 = pts s p2"
  shows "proj_pt_inv Arc s = Ok (Arc\<lparr>line_S := 0, az21 := 0, az12 := 0\<rparr>)"
  using assms by (simp add: proj_pt_inv_def Let_def proj_adjlon_0 DTOL_def)

lemma proj_sp_inv_same_point:
  assumes "line_E A = Ptr e" "pt1 A = Ptr p1" "pt2 A = Ptr p2" "pts s p1 = pts s p2"
  shows "proj_sp_inv A s = Ok (A\<lparr>line_S := 0, az12 := 0, az21 := 0\<rparr>)"
  using assms by (simp add: proj_sp_inv_def Let_def proj_adjlon_0 atan2_0_0 mult.commute)

lemma geod_inv_same_point:
  assumes "g_p1 G = g_p2 G" "adjlon 0 = 0"
  shows "geod_inv adjlon G = (- 1, G\<lparr>g_DIST := 0, g_ALPHA21 := 0, g_ALPHA12 := 0\<rparr>)"
  using assms by (simp add: geod_inv_def Let_def DTOL_def)

lemma proj_in_inv_same_point:
  assumes "line_E A = Ptr e" "pt1 A = Ptr p1" "pt2 A = Ptr p2" "pts s p1 = pts s p2"
  shows "proj_in_inv A s = Ok (A\<lparr>line_S := 0, az12 := pi, az21 := 0\<rparr>)"
  using assms by (simp add: proj_in_inv_def Let_def merid_arc_same TOL1_def)

text \<open>
  C4: for every point \<open>p\<close> the inverse solver on \<open>(p, p)\<close> yields distance 0 and both
  azimuths 0. \<^verbatim>\<open>proj_pt_inv\<close>, \<^verbatim>\<open>proj_sp_inv\<close> and \<^verbatim>\<open>geod_inv\<close> do (the
  lemmas above); \<^verbatim>\<open>proj_in_inv\<close> takes its meridional branch, where
  \<^verbatim>\<open>A->pt2->phi > A->pt1->phi\<close> is false, and stores \<^verbatim>\<open>A->az12 = M_PI\<close>.
\<close>

theorem C4_in_inv_same_point:
  "proj_in_inv (line_of 0 0)
     (store_of (point (1 / 2) (1 / 3)) (point (1 / 2) (1 / 3)) (ellipsoid 1 (1 / 300))) =
   Ok ((line_of 0 0)\<lparr>line_S := 0, az12 := pi, az21 := 0\<rparr>) \<and> pi \<noteq> 0"
  using proj_in_inv_same_point
    [of "line_of 0 0" 0 1 2 "store_of (point (1 / 2) (1 / 3)) (point (1 / 2) (1 / 3)) (ellipsoid 1 (1 / 300))"]
  by simp

section \<open>The meridian case of the Thomas forward solver\<close>

lemma pt_fwd_pre_merid_0:
  "v_merid (pt_fwd_pre f ea 0 len phi1)" "\<not> v_signS (pt_fwd_pre f ea 0 len phi1)"
  by (simp_all add: pt_fwd_pre_def Let_def proj_adjlon_0 MERI_TOL_def)

lemma pt_fwd_merid_al21: "fst (snd (pt_fwd_merid v)) = 0 \<or> fst (snd (pt_fwd_merid v)) = pi"
  by (simp add: pt_fwd_merid_def Let_def)

lemma proj_pt_fwd_merid_unstored:
  assumes "line_E Arc = Ptr e" "pt1 Arc = Ptr p1" "pt2 Arc = Ptr p2"
    and "v_merid (pt_fwd_pre (ell_f (ells s e)) (ell_a (ells s e)) (az12 Arc) (line_S Arc)
           (phi (pts s p1)))"
  shows "proj_pt_fwd Arc s =
         Ok (Arc, wr_lam p2 (proj_adjlon (lam (pts s p1) +
               snd (snd (pt_fwd_merid (pt_fwd_pre (ell_f (ells s e)) (ell_a (ells s e))
                 (az12 Arc) (line_S Arc) (phi (pts s p1))))))) s)"
  using assms by (simp add: proj_pt_fwd_def Let_def split: prod.splits)

lemma geod_for_merid_stores:
  assumes "g_merid G \<noteq> 0"
  shows "g_ALPHA21 (geod_for adjlon G) = 0 \<or> g_ALPHA21 (geod_for adjlon G) = pi"
  using assms by (simp add: geod_for_def Let_def split: prod.splits)

lemma geod_for_merid_latitude:
  assumes "g_merid G \<noteq> 0"
  shows "\<bar>uv_u (g_p2 (geod_for adjlon G))\<bar> =
         \<bar>arctan (tan (pi / 2 + g_s1 G - fst (geod_for_ds G)) / g_ONEF G)\<bar>"
  using assms by (simp add: geod_for_def Let_def split: prod.splits)

text \<open>
  C6: in the meridian case the Thomas-style forward solver stores the endpoint latitude
  and the back azimuth (0 or \<open>pi\<close>) into the line record. \<^verbatim>\<open>geod_for\<close> does
  (the two lemmas above). \<^verbatim>\<open>proj_pt_fwd\<close> assigns them to its locals \<^verbatim>\<open>phi2\<close>
  and \<^verbatim>\<open>al21\<close> and stores the longitude only: due north from the equator, a line
  that holds \<^verbatim>\<open>az21 = 1\<close> and a second point that holds latitude \<open>1 / 4\<close> hold them
  after the call.
\<close>

theorem C6_pt_fwd_meridian_unstored:
  "\<exists>s'. proj_pt_fwd ((line_of 0 1)\<lparr>az21 := 1\<rparr>)
       (store_of (point 0 0) (point 0 (1 / 4)) (ellipsoid 1 (1 / 300))) =
         Ok ((line_of 0 1)\<lparr>az21 := 1\<rparr>, s') \<and>
     phi (pts s' 2) = 1 / 4 \<and> (1::real) \<noteq> 0 \<and> 1 \<noteq> pi"
proof -
  let ?A = "(line_of 0 1)\<lparr>az21 := 1\<rparr>"
  let ?s = "store_of (point 0 0) (point 0 (1 / 4)) (ellipsoid 1 (1 / 300))"
  have m: "v_merid (pt_fwd_pre (ell_f (ells ?s 0)) (ell_a (ells ?s 0)) (az12 ?A) (line_S ?A)
           (phi (pts ?s 1)))"
    using pt_fwd_pre_merid_0 (1) by (simp add: line_of_def)
  have p: "line_E ?A = Ptr 0" "pt1 ?A = Ptr 1" "pt2 ?A = Ptr 2" by (simp_all add: line_of_def)
  from proj_pt_fwd_merid_unstored [OF p m] obtain l where
    r: "proj_pt_fwd ?A ?s = Ok (?A, wr_lam 2 l ?s)" by simp
  have "phi (pts (wr_lam 2 l ?s) 2) = 1 / 4" by simp
  moreover have "(1::real) \<noteq> pi" using pi_ge_two by linarith
  ultimately show ?thesis using r by auto
qed

section \<open>The ellipsoidal inverse solver at the antipodal limit\<close>














section \<open>The reduced latitudes are defined off the poles\<close>

lemma cos_nonzero_inside:
  assumes "\<bar>p\<bar> < pi / 2"
  shows "cos p \<noteq> 0"
proof -
  from assms have "- (pi / 2) < p" "p < pi / 2" by (simp_all add: abs_less_iff)
  then have "0 < cos p" by (rule cos_gt_zero_pi)
  then show ?thesis by simp
qed

text \<open>
  C10: for a latitude \<open>p\<close> with \<open>|p| < pi / 2\<close> the reduced latitudes of the three
  ellipsoidal solvers are defined (the divisor \<open>cos p\<close> is not zero) and are the values
  the solvers compute; at \<open>p = pi / 2\<close> and \<open>p = - pi / 2\<close> the divisor is zero and
  they have no value.
\<close>

theorem C10_reduced_latitude_defined:
  "(\<bar>p\<bar> < pi / 2 \<longrightarrow>
      cos p \<noteq> 0 \<and>
      in_fwd_reduced r p = Some (r * sin p / cos p) \<and>
      in_inv_reduced f0 p = Some (arctan (f0 * sin p / cos p)) \<and>
      pt_fwd_reduced onef p = Some (arctan (onef * tan p))) \<and>
   cos (pi / 2) = 0 \<and> cos (- (pi / 2)) = 0 \<and>
   in_fwd_reduced r (pi / 2) = None \<and> in_fwd_reduced r (- (pi / 2)) = None \<and>
   in_inv_reduced f0 (pi / 2) = None \<and> in_inv_reduced f0 (- (pi / 2)) = None \<and>
   pt_fwd_reduced onef (pi / 2) = None \<and> pt_fwd_reduced onef (- (pi / 2)) = None"
  using cos_nonzero_inside [of p]
  by (simp add: in_fwd_reduced_def in_inv_reduced_def pt_fwd_reduced_def checked_div_def tan_def)

theorem C10_reduced_latitude_defined_witness:
  "\<bar>0::real\<bar> < pi / 2 \<and> cos (0::real) \<noteq> 0 \<and>
   in_fwd_reduced (299 / 300) 0 = Some 0 \<and>
   in_inv_reduced (299 / 300) 0 = Some 0 \<and>
   pt_fwd_reduced (299 / 300) 0 = Some 0 \<and>
   in_fwd_reduced (299 / 300) (pi / 2) = None"
  using C10_reduced_latitude_defined [of 0 "299 / 300" "299 / 300" "299 / 300"] by simp

section \<open>The longitude of the ellipsoidal direct solver\<close>

lemma atan2_sin_cos:
  assumes "0 \<le> t" "t < pi / 2"
  shows "atan2 (sin t) (cos t) = t"
proof -
  from assms have c: "0 < cos t" by (intro cos_gt_zero_pi) linarith+
  have "arctan (sin t / cos t) = arctan (tan t)" by (simp add: tan_def)
  also have "\<dots> = t" using assms by (intro arctan_tan) linarith+
  finally show ?thesis using c by (simp add: atan2_def)
qed

text \<open>
  \<^verbatim>\<open>proj_in_fwd\<close> stores the longitude as it has computed it. Eastwards along the
  equator the arc \<open>S / a\<close> is added to the longitude: from longitude \<open>pi\<close>, half a
  radian further east, the longitude written is \<open>pi + 1 / 2\<close>.
\<close>

lemma proj_in_fwd_equator_east:
  "\<exists>A' s'. proj_in_fwd (\<lambda>x. x) 118 (line_of (pi / 2) (1 / 2))
       (store_of (point pi 0) (point 0 0) (ellipsoid 1 (1 / 300))) = Ok (A', s') \<and>
     lam (pts s' 2) = pi + 1 / 2"
proof -
  let ?A = "line_of (pi / 2) (1 / 2)"
  let ?s = "store_of (point pi 0) (point 0 0) (ellipsoid 1 (1 / 300))"
  define t :: real where "t = 150 / 299"
  have x: "in_fwd_x (299 / 300) 0 (pi / 2) = 0"
    by (simp add: in_fwd_x_def Let_def)
  have d: "in_fwd_d 0 = 0" by (simp add: in_fwd_d_def)
  have tu: "in_fwd_tu (1 / 2) 1 (299 / 300) 0 = t"
    by (simp add: in_fwd_tu_def Let_def t_def)
  have az: "in_fwd_az21 (299 / 300) 0 (pi / 2) = 0"
    by (simp add: in_fwd_az21_def Let_def)
  have b: "in_fwd_body 0 0 t t = t" by (simp add: in_fwd_body_def Let_def)
  have l1: "in_fwd_loop (\<lambda>x. x) 1 0 0 t t = Some (sin t, cos t, cos t, cos t * cos t * 2 - 1, t)"
    using b by (simp add: EPS_def)
  have l: "in_fwd_loop (\<lambda>x. x) 118 0 0 t t = Some (sin t, cos t, cos t, cos t * cos t * 2 - 1, t)"
    by (rule in_fwd_loop_mono [OF l1]) simp
  have tr: "0 \<le> t" "t < pi / 2" using pi_ge_two by (simp_all add: t_def) 
  have a: "atan2 (sin t) (cos t) = t" by (rule atan2_sin_cos [OF tr])
  have h: "hypot 1 0 = 1" by (simp add: hypot_def)
  have "proj_in_fwd (\<lambda>x. x) 118 ?A ?s = Ok
      (?A\<lparr>az21 := proj_adjlon (atan2 1 0 + pi), az12 := proj_adjlon (pi / 2)\<rparr>,
       wr_lam 2 (pi + t - t * (1 / 300)) (wr_phi 2 (atan2 0 (299 / 300)) ?s))"
    unfolding proj_in_fwd_def
    by (simp add: Let_def x d tu az l a h del: in_fwd_loop.simps)
  moreover have "pi + t - t * (1 / 300) = pi + 1 / 2" by (simp add: t_def)
  ultimately show ?thesis by simp
qed

section \<open>The direct solver followed by the inverse solver, along the equator\<close>

text \<open>
  Between two points of the equator whose longitudes differ by less than
  \<open>pi (1 - f)\<close> and by \<open>5e-14\<close> or more, \<^verbatim>\<open>proj_in_inv\<close> takes its general
  case and stores the azimuths \<open>pi / 2\<close> and \<open>3 pi / 2\<close> (eastwards), or
  \<open>3 pi / 2\<close> and \<open>pi / 2\<close> (westwards): its azimuths lie in \<open>[0, 2 pi)\<close>.
\<close>

lemma in_inv_azimuths_equator:
  assumes "su1 = 0" "su2 = 0" "\<bar>dlon\<bar> \<le> pi"
  shows "in_inv_azimuths dlon su1 cu1 su2 cu2 v =
         (if dlon < 0 then (3 * pi / 2, pi / 2) else (pi / 2, 3 * pi / 2))"
proof -
  have p: "0 < pi" by simp
  from assms(3) have d: "\<not> dlon > pi" by linarith
  show ?thesis
    unfolding in_inv_azimuths_def Let_def using assms d p
    by (auto simp: TOL0_def)
qed

lemma in_inv_general_equator:
  assumes "\<bar>lam2 - lam1\<bar> \<le> pi"
  shows "az12 (in_inv_general A ea f esq lam1 0 lam2 0) = (if lam2 - lam1 < 0 then 3 * pi / 2 else pi / 2)"
    and "az21 (in_inv_general A ea f esq lam1 0 lam2 0) = (if lam2 - lam1 < 0 then pi / 2 else 3 * pi / 2)"
proof -
  have "\<exists>cu1 cu2 v.
          az12 (in_inv_general A ea f esq lam1 0 lam2 0) =
            fst (in_inv_azimuths (lam2 - lam1) 0 cu1 0 cu2 v) \<and>
          az21 (in_inv_general A ea f esq lam1 0 lam2 0) =
            snd (in_inv_azimuths (lam2 - lam1) 0 cu1 0 cu2 v)"
    unfolding in_inv_general_def Let_def
    by (intro exI) (simp add: case_prod_unfold)
  then obtain cu1 cu2 v where
    a: "az12 (in_inv_general A ea f esq lam1 0 lam2 0) = fst (in_inv_azimuths (lam2 - lam1) 0 cu1 0 cu2 v)"
    and b: "az21 (in_inv_general A ea f esq lam1 0 lam2 0) = snd (in_inv_azimuths (lam2 - lam1) 0 cu1 0 cu2 v)"
    by blast
  have e: "in_inv_azimuths (lam2 - lam1) 0 cu1 0 cu2 v =
         (if lam2 - lam1 < 0 then (3 * pi / 2, pi / 2) else (pi / 2, 3 * pi / 2))"
    by (rule in_inv_azimuths_equator [OF refl refl assms])
  show "az12 (in_inv_general A ea f esq lam1 0 lam2 0) = (if lam2 - lam1 < 0 then 3 * pi / 2 else pi / 2)"
    unfolding a e by simp
  show "az21 (in_inv_general A ea f esq lam1 0 lam2 0) = (if lam2 - lam1 < 0 then pi / 2 else 3 * pi / 2)"
    unfolding b e by simp
qed

lemma proj_in_inv_equator:
  assumes "line_E A = Ptr e" "pt1 A = Ptr p1" "pt2 A = Ptr p2"
    and "phi (pts s p1) = 0" "phi (pts s p2) = 0"
    and "TOL1 \<le> \<bar>lam (pts s p2) - lam (pts s p1)\<bar>"
    and "\<bar>lam (pts s p2) - lam (pts s p1)\<bar> < pi * (1 - ell_f (ells s e))"
    and "0 \<le> ell_f (ells s e)"
  shows "\<exists>A'. proj_in_inv A s = Ok A' \<and>
           az12 A' = (if lam (pts s p2) < lam (pts s p1) then 3 * pi / 2 else pi / 2) \<and>
           az21 A' = (if lam (pts s p2) < lam (pts s p1) then pi / 2 else 3 * pi / 2)"
proof -
  define dl where "dl = lam (pts s p2) - lam (pts s p1)"
  have "pi * (1 - ell_f (ells s e)) \<le> pi * 1"
    using assms(8) by (intro mult_left_mono) auto
  then have "pi * (1 - ell_f (ells s e)) \<le> pi" by (simp only: mult_1_right)
  with assms(7) have lt: "\<bar>dl\<bar> < pi" unfolding dl_def by linarith
  then have dlon: "in_inv_dlon dl = dl" by (auto simp: in_inv_dlon_def)
  from lt have ss: "in_inv_ss dl = \<bar>dl\<bar>" by (simp add: in_inv_ss_def)
  have g: "proj_in_inv A s = Ok (in_inv_general A (ell_a (ells s e)) (ell_f (ells s e))
      (ell_es (ells s e)) (lam (pts s p1)) 0 (lam (pts s p2)) 0)"
    using assms(1-7) dlon ss
    by (simp add: proj_in_inv_def Let_def dl_def [symmetric])
  from lt have le: "\<bar>lam (pts s p2) - lam (pts s p1)\<bar> \<le> pi" by (simp add: dl_def)
  show ?thesis unfolding g using in_inv_general_equator [OF le] by auto
qed

text \<open>
  \<^verbatim>\<open>proj_in_fwd\<close> along the equator from \<open>(0, 0)\<close>, half a radian of arc on the
  ellipsoid \<open>a = 1\<close>, \<open>f = 1 / 300\<close>, in exact arithmetic: the loop is left after its
  first pass. The azimuths it leaves have gone through \<^verbatim>\<open>proj_adjlon\<close>.
\<close>

lemma proj_adjlon_half_pi: "proj_adjlon (pi / 2) = pi / 2" "proj_adjlon (- (pi / 2)) = - (pi / 2)"
proof -
  have "pi / 2 \<le> pi * 1" by simp
  also have "pi * 1 \<le> pi * (1 + 3 * DBL_EPSILON)"
    by (intro mult_left_mono) (auto simp: DBL_EPSILON_def)
  finally have b: "pi / 2 \<le> pi * (1 + 3 * DBL_EPSILON)" .
  show "proj_adjlon (pi / 2) = pi / 2"
    by (rule proj_adjlon_unchanged) (use b in simp)
  show "proj_adjlon (- (pi / 2)) = - (pi / 2)"
    by (rule proj_adjlon_unchanged) (use b in simp)
qed

lemma proj_adjlon_3_half_pi: "proj_adjlon (pi / 2 + pi) = - (pi / 2)"
proof -
  have e: "(pi / 2 + pi) * (1 / pi) = 3 / 2" by (simp add: field_simps)
  have "3 * DBL_EPSILON < \<bar>(pi / 2 + pi) * (1 / pi)\<bar> - 1"
    unfolding e by (simp add: DBL_EPSILON_def)
  from proj_adjlon_reduced [OF this]
  have "proj_adjlon (pi / 2 + pi) = pi / 2 + pi - 2 * pi * of_int \<lfloor>((pi / 2 + pi) / pi + 1) / 2\<rfloor>" .
  moreover have "((pi / 2 + pi) / pi + 1) / 2 = 5 / 4" by (simp add: field_simps)
  moreover have "\<lfloor>5 / 4 :: real\<rfloor> = 1" by simp
  ultimately show ?thesis by simp
qed

lemma proj_in_fwd_equator:
  assumes "sin az = sf" "cos az = 0" "sf = 1 \<or> sf = - 1"
  shows "proj_in_fwd (\<lambda>x. x) 118 (line_of az (1 / 2))
       (store_of (point 0 0) (point 0 0) (ellipsoid 1 (1 / 300))) =
     Ok ((line_of az (1 / 2))\<lparr>az21 := proj_adjlon (sf * (pi / 2) + pi), az12 := proj_adjlon az\<rparr>,
         wr_lam 2 (sf * (1 / 2)) (wr_phi 2 0
           (store_of (point 0 0) (point 0 0) (ellipsoid 1 (1 / 300)))))"
proof -
  let ?A = "line_of az (1 / 2)"
  let ?s = "store_of (point 0 0) (point 0 0) (ellipsoid 1 (1 / 300))"
  define t :: real where "t = 150 / 299"
  have ss: "sf * sf = 1" using assms(3) by auto
  have x: "in_fwd_x (299 / 300) 0 az = 0"
    by (simp add: in_fwd_x_def Let_def assms(1) ss)
  have d: "in_fwd_d 0 = 0" by (simp add: in_fwd_d_def)
  have tu: "in_fwd_tu (1 / 2) 1 (299 / 300) 0 = t"
    by (simp add: in_fwd_tu_def Let_def t_def)
  have az: "in_fwd_az21 (299 / 300) 0 az = 0"
    using assms(2) by (simp add: in_fwd_az21_def Let_def)
  have b: "in_fwd_body 0 0 t t = t" by (simp add: in_fwd_body_def Let_def)
  have l1: "in_fwd_loop (\<lambda>x. x) 1 0 0 t t = Some (sin t, cos t, cos t, cos t * cos t * 2 - 1, t)"
    using b by (simp add: EPS_def)
  have l: "in_fwd_loop (\<lambda>x. x) 118 0 0 t t = Some (sin t, cos t, cos t, cos t * cos t * 2 - 1, t)"
    by (rule in_fwd_loop_mono [OF l1]) simp
  have tr: "0 \<le> t" "t < pi / 2" using pi_ge_two by (simp_all add: t_def)
  then have c: "0 < cos t" by (intro cos_gt_zero_pi) linarith+
  have a0: "atan2 (sin t) (cos t) = t" by (rule atan2_sin_cos [OF tr])
  have a: "atan2 (sin t * sf) (cos t) = sf * t"
  proof -
    from assms(3) show ?thesis
    proof
      assume "sf = 1" then show ?thesis using a0 by simp
    next
      assume m: "sf = - 1"
      have "atan2 (- sin t) (cos t) = - atan2 (sin t) (cos t)"
        using c by (simp add: atan2_def arctan_minus)
      with a0 m show ?thesis by simp
    qed
  qed
  have h: "hypot sf 0 = 1" using assms(3) by (auto simp: hypot_def)
  have p0: "atan2 0 (299 / 300) = 0" by (simp add: atan2_def)
  have b1: "atan2 sf 0 = sf * (pi / 2)" using assms(3) by (auto simp: atan2_def)
  have "proj_in_fwd (\<lambda>x. x) 118 ?A ?s = Ok
      (?A\<lparr>az21 := proj_adjlon (atan2 sf 0 + pi), az12 := proj_adjlon az\<rparr>,
       wr_lam 2 (sf * t - sf * t * (1 / 300)) (wr_phi 2 (atan2 0 (299 / 300)) ?s))"
    unfolding proj_in_fwd_def
    by (simp add: Let_def x d tu az l a h ss assms(1,2) del: in_fwd_loop.simps)
  moreover have "sf * t - sf * t * (1 / 300) = sf * (1 / 2)" by (simp add: t_def)
  ultimately show ?thesis by (simp only: p0 b1)
qed

text \<open>
  Due east (\<open>az12 = pi / 2\<close>) \<^verbatim>\<open>proj_in_fwd\<close> leaves the back azimuth
  \<open>- pi / 2\<close>; \<^verbatim>\<open>proj_in_inv\<close>, run on the line and the store it leaves, gives
  \<open>az12 = pi / 2\<close> again and the back azimuth \<open>3 pi / 2\<close>. The two back azimuths
  are the same direction, and differ by \<open>2 pi\<close>.
\<close>

lemma round_trip_equator_east:
  "\<exists>A' s' A''.
     proj_in_fwd (\<lambda>x. x) 118 (line_of (pi / 2) (1 / 2))
       (store_of (point 0 0) (point 0 0) (ellipsoid 1 (1 / 300))) = Ok (A', s') \<and>
     proj_in_inv A' s' = Ok A'' \<and>
     az12 A' = pi / 2 \<and> az21 A' = - (pi / 2) \<and>
     az12 A'' = pi / 2 \<and> az21 A'' = 3 * pi / 2"
proof -
  let ?A = "line_of (pi / 2) (1 / 2)"
  let ?s = "store_of (point 0 0) (point 0 0) (ellipsoid 1 (1 / 300))"
  let ?A' = "?A\<lparr>az21 := - (pi / 2), az12 := pi / 2\<rparr>"
  let ?s' = "wr_lam 2 (1 / 2) (wr_phi 2 0 ?s)"
  have "proj_in_fwd (\<lambda>x. x) 118 ?A ?s =
      Ok (?A\<lparr>az21 := proj_adjlon (1 * (pi / 2) + pi), az12 := proj_adjlon (pi / 2)\<rparr>,
          wr_lam 2 (1 * (1 / 2)) (wr_phi 2 0 ?s))"
    by (rule proj_in_fwd_equator) simp_all
  then have f: "proj_in_fwd (\<lambda>x. x) 118 ?A ?s = Ok (?A', ?s')"
    by (simp only: mult_1 proj_adjlon_3_half_pi proj_adjlon_half_pi)
  have p1: "pts ?s' 1 = point 0 0" by simp
  have l2: "lam (pts ?s' 2) = 1 / 2" and ph2: "phi (pts ?s' 2) = 0" by simp_all
  have "2 * (299 / 300) \<le> pi * (299 / 300)" using pi_ge_two by (intro mult_right_mono) auto
  then have lim: "1 / 2 < pi * (1 - 1 / 300)" by simp
  have dl: "\<bar>lam (pts ?s' 2) - lam (pts ?s' 1)\<bar> = 1 / 2" by (simp add: p1)
  have q1: "TOL1 \<le> \<bar>lam (pts ?s' 2) - lam (pts ?s' 1)\<bar>"
    unfolding dl by (simp add: TOL1_def)
  have q2: "\<bar>lam (pts ?s' 2) - lam (pts ?s' 1)\<bar> < pi * (1 - ell_f (ells ?s' 0))"
    unfolding dl using lim by simp
  have "\<exists>A''. proj_in_inv ?A' ?s' = Ok A'' \<and>
           az12 A'' = (if lam (pts ?s' 2) < lam (pts ?s' 1) then 3 * pi / 2 else pi / 2) \<and>
           az21 A'' = (if lam (pts ?s' 2) < lam (pts ?s' 1) then pi / 2 else 3 * pi / 2)"
    by (rule proj_in_inv_equator [where e = 0 and ?p1.0 = 1 and ?p2.0 = 2, OF _ _ _ _ _ q1 q2])
       (simp_all add: p1)
  then obtain A'' where i: "proj_in_inv ?A' ?s' = Ok A''"
    "az12 A'' = pi / 2" "az21 A'' = 3 * pi / 2" by (auto simp: p1)
  with f show ?thesis by (intro exI [of _ ?A'] exI [of _ ?s'] exI [of _ A'']) simp
qed

text \<open>
  Due west, given as \<open>az12 = - pi / 2\<close>, the back azimuths agree (\<open>pi / 2\<close>), and
  \<^verbatim>\<open>proj_in_inv\<close> gives \<open>az12 = 3 pi / 2\<close>: the azimuth comes back a full turn
  away from the one given.
\<close>

lemma round_trip_equator_west:
  "\<exists>A' s' A''.
     proj_in_fwd (\<lambda>x. x) 118 (line_of (- (pi / 2)) (1 / 2))
       (store_of (point 0 0) (point 0 0) (ellipsoid 1 (1 / 300))) = Ok (A', s') \<and>
     proj_in_inv A' s' = Ok A'' \<and>
     az12 A' = - (pi / 2) \<and> az21 A' = pi / 2 \<and>
     az12 A'' = 3 * pi / 2 \<and> az21 A'' = pi / 2"
proof -
  let ?A = "line_of (- (pi / 2)) (1 / 2)"
  let ?s = "store_of (point 0 0) (point 0 0) (ellipsoid 1 (1 / 300))"
  let ?A' = "?A\<lparr>az21 := pi / 2, az12 := - (pi / 2)\<rparr>"
  let ?s' = "wr_lam 2 (- (1 / 2)) (wr_phi 2 0 ?s)"
  have "proj_in_fwd (\<lambda>x. x) 118 ?A ?s =
      Ok (?A\<lparr>az21 := proj_adjlon (- 1 * (pi / 2) + pi), az12 := proj_adjlon (- (pi / 2))\<rparr>,
          wr_lam 2 (- 1 * (1 / 2)) (wr_phi 2 0 ?s))"
    by (rule proj_in_fwd_equator) simp_all
  moreover have "- 1 * (pi / 2) + pi = pi / 2" "- 1 * (1 / 2) = - (1 / 2 :: real)" by simp_all
  ultimately have f: "proj_in_fwd (\<lambda>x. x) 118 ?A ?s = Ok (?A', ?s')"
    by (simp only: proj_adjlon_half_pi)
  have p1: "pts ?s' 1 = point 0 0" by simp
  have l2: "lam (pts ?s' 2) = - (1 / 2)" and ph2: "phi (pts ?s' 2) = 0" by simp_all
  have "2 * (299 / 300) \<le> pi * (299 / 300)" using pi_ge_two by (intro mult_right_mono) auto
  then have lim: "1 / 2 < pi * (1 - 1 / 300)" by simp
  have dl: "\<bar>lam (pts ?s' 2) - lam (pts ?s' 1)\<bar> = 1 / 2" by (simp add: p1)
  have q1: "TOL1 \<le> \<bar>lam (pts ?s' 2) - lam (pts ?s' 1)\<bar>"
    unfolding dl by (simp add: TOL1_def)
  have q2: "\<bar>lam (pts ?s' 2) - lam (pts ?s' 1)\<bar> < pi * (1 - ell_f (ells ?s' 0))"
    unfolding dl using lim by simp
  have "\<exists>A''. proj_in_inv ?A' ?s' = Ok A'' \<and>
           az12 A'' = (if lam (pts ?s' 2) < lam (pts ?s' 1) then 3 * pi / 2 else pi / 2) \<and>
           az21 A'' = (if lam (pts ?s' 2) < lam (pts ?s' 1) then pi / 2 else 3 * pi / 2)"
    by (rule proj_in_inv_equator [where e = 0 and ?p1.0 = 1 and ?p2.0 = 2, OF _ _ _ _ _ q1 q2])
       (simp_all add: p1)
  then obtain A'' where i: "proj_in_inv ?A' ?s' = Ok A''"
    "az12 A'' = 3 * pi / 2" "az21 A'' = pi / 2" by (auto simp: p1)
  with f show ?thesis by (intro exI [of _ ?A'] exI [of _ ?s'] exI [of _ A'']) simp
qed

end
